theory Spec2Isabelle
  imports Complex_Main "HOL-Library.Log_Nat"
begin

section \<open>Basic types\<close>

text \<open>
  A JavaScript number is an IEEE 754 binary64 value: a finite double, here the rational it
  denotes, or one of the special values \<open>NaN\<close>, \<open>Infinity\<close> and \<open>-Infinity\<close> (negative zero is
  identified with zero).  A Mongo ObjectId is a string, a \<open>Date\<close> is its time value in
  milliseconds.
\<close>

datatype jsnum = Fin rat | NaN | PosInf | NegInf

instantiation jsnum :: comm_monoid_add
begin

definition zero_jsnum :: jsnum where
  "zero_jsnum = Fin 0"

fun plus_jsnum :: "jsnum \<Rightarrow> jsnum \<Rightarrow> jsnum" where
  "plus_jsnum (Fin a) (Fin b) = Fin (a + b)"
| "plus_jsnum NaN y = NaN"
| "plus_jsnum x NaN = NaN"
| "plus_jsnum PosInf NegInf = NaN"
| "plus_jsnum NegInf PosInf = NaN"
| "plus_jsnum PosInf y = PosInf"
| "plus_jsnum x PosInf = PosInf"
| "plus_jsnum NegInf y = NegInf"
| "plus_jsnum x NegInf = NegInf"

instance
proof
  fix x y z :: jsnum
  show "x + y = y + x"
    by (cases x; cases y; simp)
  show "x + y + z = x + (y + z)"
    by (cases x; cases y; cases z; simp)
  show "0 + x = x"
    by (cases x; simp add: zero_jsnum_def)
qed

end

text \<open>The sum \<open>x + y\<close> of the instance is the exact sum: the store's \<open>$inc\<close> is modelled
  by it.  The operators of JavaScript round their exact result to the nearest double, ties to
  the even significand: \<open>ilog2 x\<close> is the binary exponent of \<open>x \<noteq> 0\<close>
  (\<open>2 ^ ilog2 x \<le> \<bar>x\<bar> < 2 ^ (ilog2 x + 1)\<close>), \<open>rne\<close> rounds to the nearest integer, ties to
  even, \<open>fl\<close> rounds to 53 significant bits above the least exponent \<open>-1074\<close> of the
  subnormal numbers, and \<open>rnd\<close> overflows to an infinity from the exponent 1024 on.\<close>

definition ilog2 :: "rat \<Rightarrow> int" where
  "ilog2 x =
     (case quotient_of \<bar>x\<bar> of
        (p, q) \<Rightarrow> (let k = bitlen p - bitlen q
                   in if of_int q * 2 powi k \<le> (of_int p :: rat) then k else k - 1))"

definition rne :: "rat \<Rightarrow> int" where
  "rne y = (let f = \<lfloor>y\<rfloor>; d = y - of_int f
            in if d < 1 / 2 then f else if 1 / 2 < d then f + 1 else if even f then f else f + 1)"

definition fl :: "rat \<Rightarrow> rat" where
  "fl x = (if x = 0 then 0
           else (let e = max (ilog2 x - 52) (- 1074)
                 in of_int (rne (x / 2 powi e)) * 2 powi e))"

definition rnd :: "rat \<Rightarrow> jsnum" where
  "rnd x = (let y = fl x
            in if y = 0 \<or> ilog2 y < 1024 then Fin y
               else if 0 < y then PosInf else NegInf)"

text \<open>\<open>x + y\<close>, \<open>x * y\<close>, \<open>x / y\<close> and \<open>x > y\<close> of JavaScript, and \<open>Math.round\<close> (the nearest
  integer, a half rounds up; the result of rounding a double is a double).\<close>

fun js_add :: "jsnum \<Rightarrow> jsnum \<Rightarrow> jsnum" where
  "js_add (Fin a) (Fin b) = rnd (a + b)"
| "js_add NaN y = NaN"
| "js_add x NaN = NaN"
| "js_add PosInf NegInf = NaN"
| "js_add NegInf PosInf = NaN"
| "js_add PosInf y = PosInf"
| "js_add x PosInf = PosInf"
| "js_add NegInf y = NegInf"
| "js_add x NegInf = NegInf"

fun js_mul :: "jsnum \<Rightarrow> jsnum \<Rightarrow> jsnum" where
  "js_mul (Fin a) (Fin b) = rnd (a * b)"
| "js_mul NaN y = NaN"
| "js_mul x NaN = NaN"
| "js_mul PosInf (Fin b) = (if b = 0 then NaN else if 0 < b then PosInf else NegInf)"
| "js_mul NegInf (Fin b) = (if b = 0 then NaN else if 0 < b then NegInf else PosInf)"
| "js_mul (Fin a) PosInf = (if a = 0 then NaN else if 0 < a then PosInf else NegInf)"
| "js_mul (Fin a) NegInf = (if a = 0 then NaN else if 0 < a then NegInf else PosInf)"
| "js_mul PosInf PosInf = PosInf"
| "js_mul NegInf NegInf = PosInf"
| "js_mul PosInf NegInf = NegInf"
| "js_mul NegInf PosInf = NegInf"

fun js_div :: "jsnum \<Rightarrow> jsnum \<Rightarrow> jsnum" where
  "js_div (Fin a) (Fin b) =
     (if b \<noteq> 0 then rnd (a / b) else if a = 0 then NaN else if 0 < a then PosInf else NegInf)"
| "js_div NaN y = NaN"
| "js_div x NaN = NaN"
| "js_div (Fin a) PosInf = Fin 0"
| "js_div (Fin a) NegInf = Fin 0"
| "js_div PosInf (Fin b) = (if 0 \<le> b then PosInf else NegInf)"
| "js_div NegInf (Fin b) = (if 0 \<le> b then NegInf else PosInf)"
| "js_div PosInf y = NaN"
| "js_div NegInf y = NaN"




text \<open>The rational a finite number denotes.\<close>

fun finval :: "jsnum \<Rightarrow> rat" where
  "finval (Fin a) = a"
| "finval x = 0"

type_synonym num = jsnum
type_synonym objectId = string
type_synonym jsdate = int

section \<open>Daily store metrics: merge by date\<close>

text \<open>The rows returned by the three vendor clients (\<open>DailyOrdersSummary\<close> of the
  Shopify client, \<open>DailyAdSpend\<close> of the Facebook and Google clients).\<close>

record DailyOrdersSummary =
  os_date :: string
  soldOrders :: num
  orderValue :: num
  soldItems :: num

record DailyAdSpend =
  as_date :: string
  spend :: num

text \<open>\<open>CreateMetricInput\<close>: the per-date entry built by the orchestrator and handed to
  \<open>MetricsService.createOrUpdate\<close>.\<close>

record CreateMetricInput =
  storeId :: objectId
  date :: jsdate
  facebookMetaSpend :: num
  googleAdSpend :: num
  shopifySoldOrders :: num
  shopifyOrderValue :: num
  shopifySoldItems :: num

text \<open>\<open>metricsByDate\<close> is a JavaScript \<open>Map\<close>: insertion ordered, one entry per key.  It is
  an association list; a new key goes to the end.\<close>

type_synonym metricsByDate = "(string \<times> CreateMetricInput) list"

definition has :: "('k \<times> 'v) list \<Rightarrow> 'k \<Rightarrow> bool" where
  "has m k = (map_of m k \<noteq> None)"

definition newEntry :: "(string \<Rightarrow> jsdate) \<Rightarrow> objectId \<Rightarrow> string \<Rightarrow> CreateMetricInput" where
  "newEntry newDate sid dateStr =
     \<lparr> storeId = sid, date = newDate dateStr, facebookMetaSpend = 0, googleAdSpend = 0,
       shopifySoldOrders = 0, shopifyOrderValue = 0, shopifySoldItems = 0 \<rparr>"

text \<open>\<open>getOrCreateEntry\<close> returns the entry of \<open>dateStr\<close>, creating it with all five
  metric fields at 0 when the map has none.  The entry is a shared object that the caller
  then mutates; the model returns the map after \<open>set\<close> and the caller rewrites the entry
  with \<open>modify\<close>.\<close>

definition getOrCreateEntry ::
  "(string \<Rightarrow> jsdate) \<Rightarrow> objectId \<Rightarrow> metricsByDate \<Rightarrow> string \<Rightarrow> metricsByDate" where
  "getOrCreateEntry newDate sid m dateStr =
     (if \<not> has m dateStr then m @ [(dateStr, newEntry newDate sid dateStr)] else m)"

fun modify :: "('k \<times> 'v) list \<Rightarrow> 'k \<Rightarrow> ('v \<Rightarrow> 'v) \<Rightarrow> ('k \<times> 'v) list" where
  "modify [] k f = []"
| "modify ((k', v) # m) k f = (if k' = k then (k', f v) # m else (k', v) # modify m k f)"

definition processShopify ::
  "(string \<Rightarrow> jsdate) \<Rightarrow> objectId \<Rightarrow> metricsByDate \<Rightarrow> DailyOrdersSummary \<Rightarrow> metricsByDate" where
  "processShopify newDate sid m row =
     modify (getOrCreateEntry newDate sid m (os_date row)) (os_date row)
       (\<lambda>entry. entry\<lparr> shopifySoldOrders := soldOrders row,
                       shopifyOrderValue := orderValue row,
                       shopifySoldItems := soldItems row \<rparr>)"

definition processFacebook ::
  "(string \<Rightarrow> jsdate) \<Rightarrow> objectId \<Rightarrow> metricsByDate \<Rightarrow> DailyAdSpend \<Rightarrow> metricsByDate" where
  "processFacebook newDate sid m row =
     modify (getOrCreateEntry newDate sid m (as_date row)) (as_date row)
       (\<lambda>entry. entry\<lparr> facebookMetaSpend := spend row \<rparr>)"

definition processGoogle ::
  "(string \<Rightarrow> jsdate) \<Rightarrow> objectId \<Rightarrow> metricsByDate \<Rightarrow> DailyAdSpend \<Rightarrow> metricsByDate" where
  "processGoogle newDate sid m row =
     modify (getOrCreateEntry newDate sid m (as_date row)) (as_date row)
       (\<lambda>entry. entry\<lparr> googleAdSpend := spend row \<rparr>)"

text \<open>The merge step shared by \<open>SyncMetricsJob.handleDailySync\<close>,
  \<open>MetricsController.dailySync\<close> and \<open>MetricsController.rangeSync\<close>: the three
  \<open>forEach\<close> loops over the vendor arrays, in the order Shopify, Facebook, Google.  The three
  clients are typed to return arrays, so the \<open>Array.isArray\<close> tests hold and the
  \<open>typeof googleSpend === 'number'\<close> branch of the two daily variants is never taken.\<close>

definition mergeByDate ::
  "(string \<Rightarrow> jsdate) \<Rightarrow> objectId \<Rightarrow> DailyOrdersSummary list \<Rightarrow> DailyAdSpend list \<Rightarrow>
     DailyAdSpend list \<Rightarrow> metricsByDate" where
  "mergeByDate newDate sid shopifyData fbData googleSpend =
     foldl (processGoogle newDate sid)
       (foldl (processFacebook newDate sid)
          (foldl (processShopify newDate sid) [] shopifyData) fbData) googleSpend"

text \<open>\<open>metricsByDate.values()\<close>: the entries in insertion order; each one is upserted.\<close>

definition upserted ::
  "(string \<Rightarrow> jsdate) \<Rightarrow> objectId \<Rightarrow> DailyOrdersSummary list \<Rightarrow> DailyAdSpend list \<Rightarrow>
     DailyAdSpend list \<Rightarrow> CreateMetricInput list" where
  "upserted newDate sid shopifyData fbData googleSpend =
     map snd (mergeByDate newDate sid shopifyData fbData googleSpend)"

text \<open>The row a vendor array reports for a date: the last one of that date, since a later
  row overwrites the fields of an earlier one.\<close>

definition reported :: "('r \<Rightarrow> string) \<Rightarrow> 'r list \<Rightarrow> string \<Rightarrow> 'r option" where
  "reported key rows d = find (\<lambda>r. key r = d) (rev rows)"

definition expectedEntry ::
  "(string \<Rightarrow> jsdate) \<Rightarrow> objectId \<Rightarrow> DailyOrdersSummary list \<Rightarrow> DailyAdSpend list \<Rightarrow>
     DailyAdSpend list \<Rightarrow> string \<Rightarrow> CreateMetricInput" where
  "expectedEntry newDate sid shopifyData fbData googleSpend d =
     \<lparr> storeId = sid, date = newDate d,
       facebookMetaSpend = (case reported as_date fbData d of None \<Rightarrow> 0 | Some r \<Rightarrow> spend r),
       googleAdSpend = (case reported as_date googleSpend d of None \<Rightarrow> 0 | Some r \<Rightarrow> spend r),
       shopifySoldOrders = (case reported os_date shopifyData d of None \<Rightarrow> 0 | Some r \<Rightarrow> soldOrders r),
       shopifyOrderValue = (case reported os_date shopifyData d of None \<Rightarrow> 0 | Some r \<Rightarrow> orderValue r),
       shopifySoldItems = (case reported os_date shopifyData d of None \<Rightarrow> 0 | Some r \<Rightarrow> soldItems r) \<rparr>"

text \<open>One step of a \<open>forEach\<close> loop, for any vendor: fetch or create the entry of the row's
  date, then assign the vendor's fields.\<close>

definition touch ::
  "(string \<Rightarrow> jsdate) \<Rightarrow> objectId \<Rightarrow> ('r \<Rightarrow> string) \<Rightarrow> ('r \<Rightarrow> CreateMetricInput \<Rightarrow> CreateMetricInput) \<Rightarrow>
     metricsByDate \<Rightarrow> 'r \<Rightarrow> metricsByDate" where
  "touch nd sid key upd m row = modify (getOrCreateEntry nd sid m (key row)) (key row) (upd row)"

section \<open>Metrics store: daily store metrics\<close>

text \<open>A \<open>StoreMetric\<close> document has the fields of \<open>CreateMetricInput\<close> (the schema's
  \<open>createdAt\<close> and \<open>updatedAt\<close> timestamps are left out); the collection is the list of its
  documents.  The schema declares the index \<open>{storeId: 1, date: 1}\<close> unique.\<close>

type_synonym StoreMetric = CreateMetricInput

definition metric_key :: "StoreMetric \<Rightarrow> objectId \<times> jsdate" where
  "metric_key doc = (storeId doc, date doc)"

text \<open>\<open>MetricsService.createOrUpdate\<close>: \<open>findOneAndUpdate\<close> with filter
  \<open>{storeId, date}\<close>, update \<open>$set\<close> of the five metric fields and \<open>upsert: true\<close>.  The
  first matching document is updated; when none matches, a document made of the filter's
  and the update's fields is inserted.\<close>

fun createOrUpdate :: "StoreMetric list \<Rightarrow> CreateMetricInput \<Rightarrow> StoreMetric list" where
  "createOrUpdate [] input =
     [\<lparr> storeId = storeId input, date = date input,
        facebookMetaSpend = facebookMetaSpend input, googleAdSpend = googleAdSpend input,
        shopifySoldOrders = shopifySoldOrders input, shopifyOrderValue = shopifyOrderValue input,
        shopifySoldItems = shopifySoldItems input \<rparr>]"
| "createOrUpdate (doc # docs) input =
     (if storeId doc = storeId input \<and> date doc = date input
      then doc\<lparr> facebookMetaSpend := facebookMetaSpend input,
                googleAdSpend := googleAdSpend input,
                shopifySoldOrders := shopifySoldOrders input,
                shopifyOrderValue := shopifyOrderValue input,
                shopifySoldItems := shopifySoldItems input \<rparr> # docs
      else doc # createOrUpdate docs input)"

section \<open>Product metrics\<close>

text \<open>\<open>ProductSalesData\<close> is a row of \<open>ShopifyService.fetchProductSales\<close>;
  \<open>ProductSalesInput\<close> adds the store id; \<open>ProductMetric\<close> is the stored document, with the
  unique index \<open>{storeId: 1, productId: 1}\<close>.\<close>

record ProductSalesData =
  productId :: string
  productName :: string
  productImage :: string
  productUrl :: string
  quantitySold :: num
  revenue :: num

record ProductSalesInput = ProductSalesData +
  ps_storeId :: objectId

record ProductMetric =
  pm_storeId :: objectId
  pm_productId :: string
  pm_productName :: string
  pm_productImage :: string
  pm_productUrl :: string
  totalQuantitySold :: num
  totalRevenue :: num
  pm_lastSyncDate :: jsdate

text \<open>\<open>ProductMetricsService.upsertProductMetric\<close>: filter \<open>{storeId, productId}\<close>,
  \<open>$set\<close> of the descriptive fields and of \<open>lastSyncDate: new Date()\<close> (the argument
  \<open>now\<close>), \<open>$inc\<close> of the two totals, \<open>upsert: true\<close>.  On insertion \<open>$inc\<close> of an absent
  field stores the increment.\<close>

fun upsertProductMetric :: "jsdate \<Rightarrow> ProductMetric list \<Rightarrow> ProductSalesInput \<Rightarrow> ProductMetric list" where
  "upsertProductMetric now [] input =
     [\<lparr> pm_storeId = ps_storeId input, pm_productId = productId input,
        pm_productName = productName input, pm_productImage = productImage input,
        pm_productUrl = productUrl input,
        totalQuantitySold = quantitySold input, totalRevenue = revenue input,
        pm_lastSyncDate = now \<rparr>]"
| "upsertProductMetric now (doc # docs) input =
     (if pm_storeId doc = ps_storeId input \<and> pm_productId doc = productId input
      then doc\<lparr> pm_productName := productName input,
                pm_productImage := productImage input,
                pm_productUrl := productUrl input,
                pm_lastSyncDate := now,
                totalQuantitySold := totalQuantitySold doc + quantitySold input,
                totalRevenue := totalRevenue doc + revenue input \<rparr> # docs
      else doc # upsertProductMetric now docs input)"

text \<open>\<open>ProductMetricsService.resetStoreProducts\<close>: \<open>updateMany\<close> with filter \<open>{storeId}\<close>
  and \<open>$set\<close> of both totals to 0.\<close>

definition resetStoreProducts :: "objectId \<Rightarrow> ProductMetric list \<Rightarrow> ProductMetric list" where
  "resetStoreProducts sid docs =
     map (\<lambda>doc. if pm_storeId doc = sid then doc\<lparr> totalQuantitySold := 0, totalRevenue := 0 \<rparr> else doc) docs"

text \<open>The loop \<open>for (const product of productSales)\<close> of
  \<open>SyncProductMetricsJob.handleDailyProductSync\<close> and \<open>handleMonthlyFullSync\<close>; \<open>clock k\<close> is
  the time at which the \<open>k\<close>-th upsert of the run reads \<open>new Date()\<close>.\<close>

fun upsertProducts ::
  "(nat \<Rightarrow> jsdate) \<Rightarrow> nat \<Rightarrow> objectId \<Rightarrow> ProductMetric list \<Rightarrow> ProductSalesData list \<Rightarrow> ProductMetric list" where
  "upsertProducts clock k sid docs [] = docs"
| "upsertProducts clock k sid docs (product # productSales) =
     upsertProducts clock (Suc k) sid
       (upsertProductMetric (clock k) docs
          \<lparr> productId = productId product, productName = productName product,
            productImage = productImage product, productUrl = productUrl product,
            quantitySold = quantitySold product, revenue = revenue product,
            ps_storeId = sid \<rparr>)
       productSales"

text \<open>Reset-then-resync of one store, for a batch that was fetched successfully: the reset
  comes first, the fetch does not touch the collection, the upserts follow.\<close>

definition resyncProducts ::
  "(nat \<Rightarrow> jsdate) \<Rightarrow> objectId \<Rightarrow> ProductMetric list \<Rightarrow> ProductSalesData list \<Rightarrow> ProductMetric list" where
  "resyncProducts clock sid docs productSales =
     upsertProducts clock 0 sid (resetStoreProducts sid docs) productSales"

definition product_key :: "ProductMetric \<Rightarrow> objectId \<times> string" where
  "product_key doc = (pm_storeId doc, pm_productId doc)"

text \<open>The sums of a batch for one product.\<close>

definition batchQuantity :: "ProductSalesData list \<Rightarrow> string \<Rightarrow> num" where
  "batchQuantity productSales p = sum_list (map quantitySold (filter (\<lambda>x. productId x = p) productSales))"

definition batchRevenue :: "ProductSalesData list \<Rightarrow> string \<Rightarrow> num" where
  "batchRevenue productSales p = sum_list (map revenue (filter (\<lambda>x. productId x = p) productSales))"

text \<open>The totals a collection holds under one (store, product) key.\<close>

definition sumQ :: "ProductMetric list \<Rightarrow> objectId \<times> string \<Rightarrow> num" where
  "sumQ docs k = sum_list (map totalQuantitySold (filter (\<lambda>d. product_key d = k) docs))"

definition sumR :: "ProductMetric list \<Rightarrow> objectId \<times> string \<Rightarrow> num" where
  "sumR docs k = sum_list (map totalRevenue (filter (\<lambda>d. product_key d = k) docs))"

section \<open>Traffic metrics\<close>

text \<open>\<open>TrafficAnalyticsData\<close> is a row of \<open>ShopifyService.fetchTrafficAnalytics\<close>,
  \<open>TrafficDataInput\<close> adds the store id and the window, \<open>TrafficMetric\<close> (the stored
  document) adds \<open>lastSyncDate\<close>.\<close>

record TrafficAnalyticsData =
  landingPageType :: string
  landingPagePath :: string
  onlineStoreVisitors :: num
  sessions :: num
  sessionsWithCartAdditions :: num
  sessionsThatReachedCheckout :: num

record TrafficDataInput = TrafficAnalyticsData +
  tr_storeId :: objectId
  startDate :: jsdate
  endDate :: jsdate

record TrafficMetric = TrafficDataInput +
  lastSyncDate :: jsdate

text \<open>\<open>TrafficMetricsService.upsertTrafficMetric\<close>: filter
  \<open>{storeId, landingPagePath, startDate}\<close>, \<open>$set\<close> of every other field, \<open>upsert: true\<close>.\<close>

fun upsertTrafficMetric :: "jsdate \<Rightarrow> TrafficMetric list \<Rightarrow> TrafficDataInput \<Rightarrow> TrafficMetric list" where
  "upsertTrafficMetric now [] input =
     [\<lparr> landingPageType = landingPageType input, landingPagePath = landingPagePath input,
        onlineStoreVisitors = onlineStoreVisitors input, sessions = sessions input,
        sessionsWithCartAdditions = sessionsWithCartAdditions input,
        sessionsThatReachedCheckout = sessionsThatReachedCheckout input,
        tr_storeId = tr_storeId input, startDate = startDate input, endDate = endDate input,
        lastSyncDate = now \<rparr>]"
| "upsertTrafficMetric now (doc # docs) input =
     (if tr_storeId doc = tr_storeId input \<and> landingPagePath doc = landingPagePath input
         \<and> startDate doc = startDate input
      then doc\<lparr> landingPageType := landingPageType input,
                onlineStoreVisitors := onlineStoreVisitors input,
                sessions := sessions input,
                sessionsWithCartAdditions := sessionsWithCartAdditions input,
                sessionsThatReachedCheckout := sessionsThatReachedCheckout input,
                endDate := endDate input,
                lastSyncDate := now \<rparr> # docs
      else doc # upsertTrafficMetric now docs input)"

text \<open>\<open>TrafficMetricsService.resetStoreTraffic\<close>: \<open>deleteMany\<close> with filter
  \<open>{storeId, startDate: {$gte: startDate}}\<close>.\<close>

definition resetStoreTraffic :: "objectId \<Rightarrow> jsdate \<Rightarrow> TrafficMetric list \<Rightarrow> TrafficMetric list" where
  "resetStoreTraffic sid start docs =
     filter (\<lambda>doc. \<not> (tr_storeId doc = sid \<and> start \<le> startDate doc)) docs"

text \<open>The input the traffic jobs build from a fetched landing page, and the loop
  \<open>for (const page of trafficData)\<close> of \<open>SyncTrafficMetricsJob\<close>.\<close>

definition trafficInput :: "objectId \<Rightarrow> jsdate \<Rightarrow> jsdate \<Rightarrow> TrafficAnalyticsData \<Rightarrow> TrafficDataInput" where
  "trafficInput sid start fin page =
     \<lparr> landingPageType = landingPageType page, landingPagePath = landingPagePath page,
       onlineStoreVisitors = onlineStoreVisitors page, sessions = sessions page,
       sessionsWithCartAdditions = sessionsWithCartAdditions page,
       sessionsThatReachedCheckout = sessionsThatReachedCheckout page,
       tr_storeId = sid, startDate = start, endDate = fin \<rparr>"

fun upsertTraffic ::
  "(nat \<Rightarrow> jsdate) \<Rightarrow> nat \<Rightarrow> objectId \<Rightarrow> jsdate \<Rightarrow> jsdate \<Rightarrow> TrafficMetric list \<Rightarrow>
     TrafficAnalyticsData list \<Rightarrow> TrafficMetric list" where
  "upsertTraffic clock k sid start fin docs [] = docs"
| "upsertTraffic clock k sid start fin docs (page # trafficData) =
     upsertTraffic clock (Suc k) sid start fin
       (upsertTrafficMetric (clock k) docs (trafficInput sid start fin page)) trafficData"

definition resyncTraffic ::
  "(nat \<Rightarrow> jsdate) \<Rightarrow> objectId \<Rightarrow> jsdate \<Rightarrow> jsdate \<Rightarrow> TrafficMetric list \<Rightarrow>
     TrafficAnalyticsData list \<Rightarrow> TrafficMetric list" where
  "resyncTraffic clock sid start fin docs trafficData =
     upsertTraffic clock 0 sid start fin (resetStoreTraffic sid start docs) trafficData"

text \<open>The document made of one fetched page alone.\<close>

definition freshDoc :: "objectId \<Rightarrow> jsdate \<Rightarrow> jsdate \<Rightarrow> jsdate \<Rightarrow> TrafficAnalyticsData \<Rightarrow> TrafficMetric" where
  "freshDoc sid start fin now page =
     \<lparr> landingPageType = landingPageType page, landingPagePath = landingPagePath page,
       onlineStoreVisitors = onlineStoreVisitors page, sessions = sessions page,
       sessionsWithCartAdditions = sessionsWithCartAdditions page,
       sessionsThatReachedCheckout = sessionsThatReachedCheckout page,
       tr_storeId = sid, startDate = start, endDate = fin, lastSyncDate = now \<rparr>"

text \<open>A traffic row lies in the window of a resync of store \<open>sid\<close> starting at \<open>start\<close>.\<close>

definition inWindow :: "objectId \<Rightarrow> jsdate \<Rightarrow> TrafficMetric \<Rightarrow> bool" where
  "inWindow sid start doc = (tr_storeId doc = sid \<and> start \<le> startDate doc)"

section \<open>Exceptions and HTTP outcomes\<close>

text \<open>A thrown JavaScript exception, by class, with its message.\<close>

datatype exn =
    Error string
  | TypeError string
  | NotFoundException string
  | BadRequestException string

fun exn_message :: "exn \<Rightarrow> string" where
  "exn_message (Error m) = m"
| "exn_message (TypeError m) = m"
| "exn_message (NotFoundException m) = m"
| "exn_message (BadRequestException m) = m"

text \<open>What the code reads of a rejected axios request: \<open>err.response?.data?.error?.code\<close>,
  \<open>err.response?.data?.error?.message\<close> and \<open>err.message\<close>.  An awaited request either
  resolves with the response body or rejects with such an error.\<close>

record AxiosError =
  code :: "int option"
  api_message :: "string option"
  message :: string

datatype 'a axios = Resolved 'a | Rejected AxiosError

section \<open>Facebook client: the retry helper\<close>

text \<open>\<open>errData?.error?.message || err.message\<close>: the API's message unless it is absent or
  empty.\<close>

definition fbErrorMessage :: "AxiosError \<Rightarrow> string" where
  "fbErrorMessage e = (case api_message e of None \<Rightarrow> message e
                        | Some m \<Rightarrow> if m = [] then message e else m)"

text \<open>What a call of the helper does besides returning: requests, and the \<open>setTimeout\<close>
  waits in milliseconds.\<close>

datatype fb_event = Get | Wait nat

text \<open>
  \<open>FacebookService.callFacebook(url, params, retry = 0)\<close>.  \<open>http n\<close> is the outcome of the
  \<open>n\<close>-th \<open>axios.get\<close> the service issues; a retry repeats the same request, so the
  helper reads \<open>http n\<close>, \<open>http (n + 1)\<close>, ...  The result is the trace of events and either
  the exception thrown or the response body returned.
\<close>

function callFacebook :: "(nat \<Rightarrow> 'a axios) \<Rightarrow> nat \<Rightarrow> nat \<Rightarrow> fb_event list \<times> (exn + 'a)" where
  "callFacebook http n retry =
     (case http n of
        Resolved data \<Rightarrow> ([Get], Inr data)
      | Rejected err \<Rightarrow>
          if code err = Some 17 \<and> retry < 3
          then (case callFacebook http (Suc n) (retry + 1) of
                  (events, result) \<Rightarrow> (Get # Wait 2000 # events, result))
          else ([Get], Inl (Error (fbErrorMessage err))))"
  by pat_completeness auto
termination
  by (relation "measure (\<lambda>(http, n, retry). 3 - retry)") auto

text \<open>A response that makes the helper retry while attempts remain.\<close>

definition rateLimited :: "'a axios \<Rightarrow> bool" where
  "rateLimited r = (case r of Resolved data \<Rightarrow> False | Rejected err \<Rightarrow> code err = Some 17)"

section \<open>Facebook client: derived metrics\<close>















section \<open>Stores and the audit sink\<close>

text \<open>
  A \<open>Store\<close> document.  The schema marks the Shopify and Facebook fields required and the
  Google fields optional; a field a document does not have reads as \<open>undefined\<close>, modelled
  by \<open>None\<close>.
\<close>

record Store =
  s_id :: objectId
  name :: string
  shopifyToken :: string
  shopifyStoreUrl :: string
  fbAdSpendToken :: "string option"
  fbAccountId :: "string option"
  googleAccessToken :: "string option"
  googleRefreshToken :: "string option"
  googleCustomerId :: "string option"
  googleTokenExpiry :: "jsdate option"

text \<open>JavaScript truthiness of an optional string: \<open>undefined\<close> and \<open>''\<close> are falsy.\<close>

definition truthy :: "string option \<Rightarrow> bool" where
  "truthy s = (case s of None \<Rightarrow> False | Some v \<Rightarrow> v \<noteq> [])"

datatype AuditAction =
    SHOPIFY_SYNC_STARTED | SHOPIFY_SYNC_FAILED | SHOPIFY_ORDERS_FETCHED
  | SHOPIFY_PRODUCTS_SYNCED | SHOPIFY_TRAFFIC_SYNCED
  | FACEBOOK_SYNC_STARTED | FACEBOOK_SYNC_FAILED | FACEBOOK_AD_SPEND_FETCHED
  | FACEBOOK_INSIGHTS_FETCHED | FACEBOOK_API_ERROR
  | STORE_CREATED | STORE_UPDATED | STORE_DELETED

datatype AuditStatus = SUCCESS | FAILURE | PENDING

text \<open>An audit entry as the clients write it (metadata reduced to the \<open>platform\<close> tag, the
  duration left out).  \<open>AuditService.log\<close> appends the entry and never throws; the clients
  return the entries they logged, in order, next to their outcome.\<close>

record AuditEntry =
  action :: AuditAction
  status :: AuditStatus
  a_storeId :: objectId
  a_storeName :: string
  errorMessage :: "string option"
  platform :: "string option"

definition auditLog :: "AuditAction \<Rightarrow> AuditStatus \<Rightarrow> Store \<Rightarrow> string option \<Rightarrow> string option \<Rightarrow> AuditEntry" where
  "auditLog act st store err plat =
     \<lparr> action = act, status = st, a_storeId = s_id store, a_storeName = name store,
       errorMessage = err, platform = plat \<rparr>"

section \<open>Shopify client\<close>

text \<open>The part of the orders query's answer the client reads: per order the total price
  (\<open>parseFloat(amount || '0')\<close>, already parsed) and the line items with their quantity and
  their product, which is \<open>null\<close> for a deleted product.\<close>

record Product =
  p_id :: string
  title :: string
  featuredImage :: "string option"
  onlineStoreUrl :: "string option"

record LineItem =
  quantity :: int
  product :: "Product option"

record Order =
  amount :: rat
  lineItems :: "LineItem list"

record OrdersPage =
  edges :: "Order list"
  hasNextPage :: bool

text \<open>A GraphQL response body: \<open>errors\<close> is true when \<open>response.data.errors\<close> is
  truthy.\<close>

record 'd Graphql =
  errors :: bool
  gdata :: 'd

text \<open>\<open>ShopifyService.callShopify\<close>: a rejected request rethrows the axios error (an
  \<open>Error\<close> with its message), a body with \<open>errors\<close> throws
  \<open>Error('Shopify GraphQL error')\<close>, which the method's own \<open>catch\<close> logs and rethrows.\<close>

definition callShopify :: "'d Graphql axios \<Rightarrow> exn + 'd" where
  "callShopify response =
     (case response of
        Rejected err \<Rightarrow> Inl (Error (message err))
      | Resolved body \<Rightarrow> if errors body then Inl (Error ''Shopify GraphQL error'') else Inr (gdata body))"

subsection \<open>Product sales\<close>

type_synonym productMap = "(string \<times> ProductSalesData) list"

text \<open>\<open>x || ''\<close> for an optional string.\<close>

definition orEmpty :: "string option \<Rightarrow> string" where
  "orEmpty s = (case s of None \<Rightarrow> [] | Some v \<Rightarrow> v)"

text \<open>The share \<open>(quantity / totalItems) * orderTotal\<close> of the order total that one line
  item adds to its product: a division and a multiplication of doubles.\<close>

definition itemRevenue :: "jsnum \<Rightarrow> jsnum \<Rightarrow> LineItem \<Rightarrow> jsnum" where
  "itemRevenue totalItems orderTotal item =
     js_mul (js_div (Fin (of_int (quantity item))) totalItems) orderTotal"

text \<open>The body of \<open>for (const item of order.node.lineItems.edges)\<close> in
  \<open>ShopifyService.fetchProductSales\<close>: an item without product is skipped; otherwise the
  product's entry is created at 0 when absent, and the item's quantity and its share of the
  order total are added to it.\<close>

definition addLineItem :: "jsnum \<Rightarrow> jsnum \<Rightarrow> productMap \<Rightarrow> LineItem \<Rightarrow> productMap" where
  "addLineItem totalItems orderTotal m item =
     (case product item of
        None \<Rightarrow> m
      | Some p \<Rightarrow>
          (let m' = (if \<not> has m (p_id p)
                     then m @ [(p_id p,
                            \<lparr> productId = p_id p, productName = title p,
                              productImage = orEmpty (featuredImage p),
                              productUrl = orEmpty (onlineStoreUrl p),
                              quantitySold = Fin 0, revenue = Fin 0 \<rparr>)]
                     else m)
           in modify m' (p_id p)
                (\<lambda>existing. existing\<lparr> quantitySold := js_add (quantitySold existing) (Fin (of_int (quantity item))),
                                      revenue := js_add (revenue existing) (itemRevenue totalItems orderTotal item) \<rparr>)))"

text \<open>The body of \<open>for (const order of orders)\<close>: \<open>totalItems\<close> sums the quantities of all
  line items of the order, with or without product.\<close>

definition totalItems :: "Order \<Rightarrow> jsnum" where
  "totalItems order = foldl (\<lambda>sum item. js_add sum (Fin (of_int (quantity item)))) (Fin 0) (lineItems order)"

definition addOrder :: "productMap \<Rightarrow> Order \<Rightarrow> productMap" where
  "addOrder m order =
     foldl (addLineItem (totalItems order) (Fin (amount order))) m (lineItems order)"

text \<open>The loop \<open>while (hasNextPage)\<close>: \<open>http n\<close> answers the \<open>n\<close>-th request of the call.
  With \<open>hasNextPage\<close> on an empty page, \<open>orders[orders.length - 1].cursor\<close> is a
  \<open>TypeError\<close>.  The loop need not end: not returning is \<open>None\<close>.\<close>

partial_function (option) productPages ::
  "(nat \<Rightarrow> OrdersPage Graphql axios) \<Rightarrow> nat \<Rightarrow> productMap \<Rightarrow> (exn + productMap) option" where
  "productPages http n m =
     (case callShopify (http n) of
        Inl e \<Rightarrow> Some (Inl e)
      | Inr page \<Rightarrow>
          if hasNextPage page
          then (if edges page = []
                then Some (Inl (TypeError ''Cannot read properties of undefined (reading 'cursor')''))
                else productPages http (Suc n) (foldl addOrder m (edges page)))
          else Some (Inr (foldl addOrder m (edges page))))"

declare productPages.simps [code]

text \<open>\<open>ShopifyService.fetchProductSales\<close>: the audit entries logged and the outcome.\<close>

definition fetchProductSales ::
  "(nat \<Rightarrow> OrdersPage Graphql axios) \<Rightarrow> Store \<Rightarrow> (AuditEntry list \<times> (exn + ProductSalesData list)) option" where
  "fetchProductSales http store =
     (case productPages http 0 [] of
        None \<Rightarrow> None
      | Some (Inl e) \<Rightarrow>
          Some ([auditLog SHOPIFY_SYNC_STARTED PENDING store None None,
                 auditLog SHOPIFY_SYNC_FAILED FAILURE store (Some (exn_message e)) None],
                Inl e)
      | Some (Inr m) \<Rightarrow>
          Some ([auditLog SHOPIFY_SYNC_STARTED PENDING store None None,
                 auditLog SHOPIFY_PRODUCTS_SYNCED SUCCESS store None None],
                Inr (map snd m)))"

text \<open>The orders of the \<open>n\<close>-th page of answers, and the orders of the pages 0 to \<open>k\<close> in the
  order of processing.\<close>

definition ordersOf :: "(nat \<Rightarrow> OrdersPage Graphql axios) \<Rightarrow> nat \<Rightarrow> Order list" where
  "ordersOf http n = (case callShopify (http n) of Inl e \<Rightarrow> [] | Inr page \<Rightarrow> edges page)"

definition allOrders :: "(nat \<Rightarrow> OrdersPage Graphql axios) \<Rightarrow> nat \<Rightarrow> Order list" where
  "allOrders http k = concat (map (ordersOf http) [0..<Suc k])"

text \<open>The revenue that a product map records for a product, 0 for a product without entry;
  the sum of the shares that the line items of an order add to their products, as a sum of
  rationals; the quantity of the line items of an order that have a product, and of all.\<close>

definition revenueOf :: "productMap \<Rightarrow> string \<Rightarrow> jsnum" where
  "revenueOf m k = (case map_of m k of None \<Rightarrow> Fin 0 | Some e \<Rightarrow> revenue e)"

definition attributed :: "Order \<Rightarrow> rat" where
  "attributed order =
     sum_list (map (\<lambda>item. finval (itemRevenue (totalItems order) (Fin (amount order)) item))
                (filter (\<lambda>item. product item \<noteq> None) (lineItems order)))"

definition productItems :: "Order \<Rightarrow> int" where
  "productItems order = sum_list (map quantity (filter (\<lambda>item. product item \<noteq> None) (lineItems order)))"

definition allItems :: "Order \<Rightarrow> int" where
  "allItems order = sum_list (map quantity (lineItems order))"

text \<open>An order in range: the quantities are not negative and sum to at least 1 and at most
  \<open>2 ^ 53\<close>, and the total price is between \<open>2 ^ -900\<close> and \<open>2 ^ 900\<close> in magnitude.\<close>

definition orderInRange :: "Order \<Rightarrow> bool" where
  "orderInRange order =
     (list_all (\<lambda>item. 0 \<le> quantity item) (lineItems order)
      \<and> 1 \<le> allItems order \<and> allItems order \<le> 2 ^ 53
      \<and> 1 / 2 ^ 900 \<le> \<bar>amount order\<bar> \<and> \<bar>amount order\<bar> \<le> 2 ^ 900)"

subsection \<open>Daily orders\<close>

text \<open>The body of \<open>for (const order of orders)\<close> in \<open>ShopifyService.fetchOrders\<close>: the
  running \<open>soldOrders\<close>, \<open>orderValue\<close> and \<open>soldItems\<close> of the day.\<close>

definition countOrder :: "jsnum \<times> jsnum \<times> jsnum \<Rightarrow> Order \<Rightarrow> jsnum \<times> jsnum \<times> jsnum" where
  "countOrder acc order =
     (case acc of (so, ov, si) \<Rightarrow>
        (js_add so (Fin 1), js_add ov (Fin (amount order)),
         foldl (\<lambda>n item. js_add n (Fin (of_int (quantity item)))) si (lineItems order)))"

text \<open>The inner loop \<open>while (hasNextPage)\<close> of one day.\<close>

partial_function (option) ordersPages ::
  "(nat \<Rightarrow> OrdersPage Graphql axios) \<Rightarrow> nat \<Rightarrow> jsnum \<times> jsnum \<times> jsnum \<Rightarrow>
     (exn + jsnum \<times> jsnum \<times> jsnum) option" where
  "ordersPages http n acc =
     (case callShopify (http n) of
        Inl e \<Rightarrow> Some (Inl e)
      | Inr page \<Rightarrow>
          if hasNextPage page
          then (if edges page = []
                then Some (Inl (TypeError ''Cannot read properties of undefined (reading 'cursor')''))
                else ordersPages http (Suc n) (foldl countOrder acc (edges page)))
          else Some (Inr (foldl countOrder acc (edges page))))"

declare ordersPages.simps [code]

text \<open>The outer loop \<open>while (currentDate <= to)\<close>, one calendar day per round
  (\<open>setDate(getDate() + 1)\<close> is 24 hours later: no daylight-saving shift).  \<open>api day n\<close>
  answers the \<open>n\<close>-th request for the day of \<open>day\<close>; \<open>fmt\<close> is
  \<open>toISOString().slice(0, 10)\<close>.  The delay between days is not modelled.\<close>

function ordersDays ::
  "(jsdate \<Rightarrow> nat \<Rightarrow> OrdersPage Graphql axios) \<Rightarrow> (jsdate \<Rightarrow> string) \<Rightarrow> jsdate \<Rightarrow> jsdate \<Rightarrow>
     (exn + DailyOrdersSummary list) option" where
  "ordersDays api fmt currentDate to =
     (if currentDate \<le> to
      then (case ordersPages (api currentDate) 0 (0, 0, 0) of
              None \<Rightarrow> None
            | Some (Inl e) \<Rightarrow> Some (Inl e)
            | Some (Inr (so, ov, si)) \<Rightarrow>
                (case ordersDays api fmt (currentDate + 86400000) to of
                   None \<Rightarrow> None
                 | Some (Inl e) \<Rightarrow> Some (Inl e)
                 | Some (Inr days) \<Rightarrow>
                     Some (Inr (\<lparr> os_date = fmt currentDate, soldOrders = so, orderValue = ov,
                                   soldItems = si \<rparr> # days))))
      else Some (Inr []))"
  by pat_completeness auto
termination
  by (relation "measure (\<lambda>(api, fmt, currentDate, to). nat (to - currentDate + 1))") auto

text \<open>\<open>ShopifyService.fetchOrders\<close>: \<open>try\<close> the loops, audit the outcome, rethrow.\<close>

definition fetchOrders ::
  "(jsdate \<Rightarrow> nat \<Rightarrow> OrdersPage Graphql axios) \<Rightarrow> (jsdate \<Rightarrow> string) \<Rightarrow> Store \<Rightarrow> jsdate \<Rightarrow> jsdate \<Rightarrow>
     (AuditEntry list \<times> (exn + DailyOrdersSummary list)) option" where
  "fetchOrders api fmt store from to =
     (case ordersDays api fmt from to of
        None \<Rightarrow> None
      | Some (Inl e) \<Rightarrow>
          Some ([auditLog SHOPIFY_SYNC_STARTED PENDING store None None,
                 auditLog SHOPIFY_SYNC_FAILED FAILURE store (Some (exn_message e)) None],
                Inl e)
      | Some (Inr days) \<Rightarrow>
          Some ([auditLog SHOPIFY_SYNC_STARTED PENDING store None None,
                 auditLog SHOPIFY_ORDERS_FETCHED SUCCESS store None None],
                Inr days))"

section \<open>Facebook client: ad spend\<close>

text \<open>A row of the account-level insights: \<open>date_start\<close> and \<open>parseFloat(row.spend || '0')\<close>
  (\<open>None\<close> when \<open>spend\<close> is absent or empty).  The response body is \<open>None\<close> when \<open>data\<close> or
  \<open>data.data\<close> is missing.\<close>

record FbRow =
  date_start :: string
  fb_spend :: "jsnum option"

type_synonym FbBody = "FbRow list option"

text \<open>
  \<open>FacebookService.fetchAdSpend\<close>.  The ad-account id is only used to build the URL, but
  \<open>adAccountId.startsWith\<close> throws a \<open>TypeError\<close> when the store has none; the token is
  passed to the API as it is.  Whatever the \<open>try\<close> block throws is audited and rethrown.
\<close>

definition FacebookService_fetchAdSpend ::
  "(nat \<Rightarrow> FbBody axios) \<Rightarrow> Store \<Rightarrow> AuditEntry list \<times> (exn + DailyAdSpend list)" where
  "FacebookService_fetchAdSpend http store =
     (let started = auditLog FACEBOOK_SYNC_STARTED PENDING store None None;
          failed = (\<lambda>e. auditLog FACEBOOK_SYNC_FAILED FAILURE store (Some (exn_message e)) None)
      in case fbAccountId store of
           None \<Rightarrow>
             (let e = TypeError ''Cannot read properties of undefined (reading 'startsWith')''
              in ([started, failed e], Inl e))
         | Some adAccountId \<Rightarrow>
             (case snd (callFacebook http 0 0) of
                Inl e \<Rightarrow> ([started, failed e], Inl e)
              | Inr body \<Rightarrow>
                  (case body of
                     None \<Rightarrow> ([started], Inr [])
                   | Some rows \<Rightarrow>
                       if rows = [] then ([started], Inr [])
                       else ([started, auditLog FACEBOOK_AD_SPEND_FETCHED SUCCESS store None None],
                             Inr (map (\<lambda>row. \<lparr> as_date = date_start row,
                                               spend = (case fb_spend row of None \<Rightarrow> 0 | Some v \<Rightarrow> v) \<rparr>)
                                    rows)))))"

section \<open>Google client: ad spend\<close>

text \<open>\<open>GoogleOAuthService.refreshAccessToken\<close>: every failure, also a response without
  access token, becomes a \<open>BadRequestException\<close>.\<close>

definition refreshAccessToken :: "string option axios \<Rightarrow> exn + string" where
  "refreshAccessToken response =
     (case response of
        Rejected err \<Rightarrow> Inl (BadRequestException ''Failed to refresh access token'')
      | Resolved tok \<Rightarrow>
          if truthy tok then Inr (orEmpty tok)
          else Inl (BadRequestException ''Failed to refresh access token''))"

text \<open>\<open>GoogleService.getValidAccessToken\<close>; the refreshed token is also saved on the store
  document, which the model does not follow.\<close>

definition getValidAccessToken :: "jsdate \<Rightarrow> string option axios \<Rightarrow> Store \<Rightarrow> exn + string" where
  "getValidAccessToken now refresh store =
     (if \<not> truthy (googleRefreshToken store)
      then Inl (BadRequestException ''Store not connected to Google Ads. Please authorize access first.'')
      else if truthy (googleAccessToken store)
              \<and> (case googleTokenExpiry store of None \<Rightarrow> 0 | Some t \<Rightarrow> t) > now + 300000
      then Inr (orEmpty (googleAccessToken store))
      else refreshAccessToken refresh)"

text \<open>A result of the search stream: \<open>segments?.date\<close> and
  \<open>parseInt(metrics?.costMicros || '0', 10)\<close>; a batch is its \<open>results\<close>, \<open>None\<close> when it has
  none; the body is \<open>None\<close> when it is not an array.\<close>

record GoogleResult =
  segments_date :: "string option"
  costMicros :: int

type_synonym GoogleBody = "GoogleResult list option list option"

text \<open>\<open>spendByDate\<close>, a \<open>Map<string, number>\<close>: \<open>set(date, (get(date) || 0) + costDollars)\<close>
  for a result with a date; \<open>x || 0\<close> is 0 when \<open>x\<close> is absent, 0 or \<open>NaN\<close>.\<close>

definition addSpend :: "(string \<times> jsnum) list \<Rightarrow> GoogleResult \<Rightarrow> (string \<times> jsnum) list" where
  "addSpend m result =
     (let costDollars = js_div (Fin (of_int (costMicros result))) (Fin 1000000)
      in if truthy (segments_date result)
         then (let d = orEmpty (segments_date result)
               in if has m d
                  then modify m d (\<lambda>existing. js_add (if existing = NaN then Fin 0 else existing) costDollars)
                  else m @ [(d, js_add (Fin 0) costDollars)])
         else m)"

definition spendByDate :: "GoogleBody \<Rightarrow> (string \<times> jsnum) list" where
  "spendByDate body =
     (case body of
        None \<Rightarrow> []
      | Some batches \<Rightarrow>
          foldl (\<lambda>m batch. case batch of None \<Rightarrow> m | Some rs \<Rightarrow> foldl addSpend m rs) [] batches)"

text \<open>
  \<open>GoogleService.fetchAdSpend\<close>.  Without customer id it returns \<open>[]\<close> before anything
  else.  Otherwise the \<open>catch\<close> block audits the failure and returns \<open>[]\<close>: it does not
  rethrow.  The audit actions are the Facebook ones, tagged \<open>google_ads\<close>.
\<close>

definition GoogleService_fetchAdSpend ::
  "jsdate \<Rightarrow> string option axios \<Rightarrow> GoogleBody axios \<Rightarrow> Store \<Rightarrow> AuditEntry list \<times> (exn + DailyAdSpend list)" where
  "GoogleService_fetchAdSpend now refresh post store =
     (if \<not> truthy (googleCustomerId store) then ([], Inr [])
      else
        (let started = auditLog FACEBOOK_SYNC_STARTED PENDING store None (Some ''google_ads'');
             failed = (\<lambda>m. auditLog FACEBOOK_SYNC_FAILED FAILURE store (Some m) (Some ''google_ads''))
         in case getValidAccessToken now refresh store of
              Inl e \<Rightarrow> ([started, failed (exn_message e)], Inr [])
            | Inr accessToken \<Rightarrow>
                (case post of
                   Rejected err \<Rightarrow> ([started, failed (message err)], Inr [])
                 | Resolved body \<Rightarrow>
                     ([started, auditLog FACEBOOK_AD_SPEND_FETCHED SUCCESS store None (Some ''google_ads'')],
                      Inr (map (\<lambda>(d, s). \<lparr> as_date = d, spend = s \<rparr>) (spendByDate body))))))"

section \<open>Sync orchestrator\<close>

text \<open>
  The world outside the process: what each vendor API answers for a store, the clock, and
  the two readings of dates (\<open>newDate\<close> for the date strings of vendor rows, \<open>parseDate\<close> for
  a request's strings, \<open>None\<close> being an invalid date).
\<close>

record Env =
  shopifyApi :: "Store \<Rightarrow> jsdate \<Rightarrow> nat \<Rightarrow> OrdersPage Graphql axios"
  facebookApi :: "Store \<Rightarrow> nat \<Rightarrow> FbBody axios"
  googleRefresh :: "Store \<Rightarrow> string option axios"
  googleAdsApi :: "Store \<Rightarrow> GoogleBody axios"
  dateNow :: jsdate
  isoDate :: "jsdate \<Rightarrow> string"
  newDate :: "string \<Rightarrow> jsdate"
  parseDate :: "string \<Rightarrow> jsdate option"

datatype Vendor = Shopify | Facebook | Google

text \<open>The state a sync changes: the metrics collection, the audit log, the vendor clients
  called so far, and the errors the orchestrator logged.\<close>

record SyncState =
  metrics :: "StoreMetric list"
  audit :: "AuditEntry list"
  calls :: "(Vendor \<times> objectId) list"
  errorLog :: "string list"

text \<open>
  \<open>Promise.all\<close> of the three client calls for one window: all three calls are made and
  all their audit entries are written (here in the order of the array); the result is the
  three arrays, or the rejection of the first client in array order that threw.  A Shopify
  call that never returns makes the model return \<open>None\<close>.
\<close>

definition fetchAll ::
  "Env \<Rightarrow> Store \<Rightarrow> jsdate \<Rightarrow> jsdate \<Rightarrow>
     (AuditEntry list \<times> (exn + DailyOrdersSummary list \<times> DailyAdSpend list \<times> DailyAdSpend list)) option" where
  "fetchAll env store from to =
     (case fetchOrders (shopifyApi env store) (isoDate env) store from to of
        None \<Rightarrow> None
      | Some (a1, r1) \<Rightarrow>
          (case FacebookService_fetchAdSpend (facebookApi env store) store of
             (a2, r2) \<Rightarrow>
               (case GoogleService_fetchAdSpend (dateNow env) (googleRefresh env store) (googleAdsApi env store) store of
                  (a3, r3) \<Rightarrow>
                    Some (a1 @ a2 @ a3,
                          (case r1 of
                             Inl e \<Rightarrow> Inl e
                           | Inr shopifyData \<Rightarrow>
                               (case r2 of
                                  Inl e \<Rightarrow> Inl e
                                | Inr fbData \<Rightarrow>
                                    (case r3 of
                                       Inl e \<Rightarrow> Inl e
                                     | Inr googleSpend \<Rightarrow> Inr (shopifyData, fbData, googleSpend))))))))"

definition called :: "Store \<Rightarrow> (Vendor \<times> objectId) list" where
  "called store = [(Shopify, s_id store), (Facebook, s_id store), (Google, s_id store)]"

text \<open>One round of \<open>for (const store of stores)\<close> in \<open>SyncMetricsJob.handleDailySync\<close>:
  the \<open>try\<close> block fetches, merges by date and upserts; the \<open>catch\<close> block logs the error
  and the loop goes on.\<close>

definition syncStore :: "Env \<Rightarrow> jsdate \<Rightarrow> SyncState \<Rightarrow> Store \<Rightarrow> SyncState option" where
  "syncStore env yesterday st store =
     (case fetchAll env store yesterday yesterday of
        None \<Rightarrow> None
      | Some (entries, outcome) \<Rightarrow>
          (let st' = st\<lparr> audit := audit st @ entries, calls := calls st @ called store \<rparr>
           in case outcome of
                Inl e \<Rightarrow> Some (st'\<lparr> errorLog := errorLog st' @ [exn_message e] \<rparr>)
              | Inr (shopifyData, fbData, googleSpend) \<Rightarrow>
                  Some (st'\<lparr> metrics :=
                              foldl createOrUpdate (metrics st')
                                (upserted (newDate env) (s_id store) shopifyData fbData googleSpend) \<rparr>)))"


section \<open>Backfill of a date range\<close>

text \<open>What \<open>MetricsController.rangeSync\<close> returns: the error object of a rejected range, or
  the report of a completed sync (its count of days).\<close>

datatype Response = ErrorObject string nat | RangeSyncCompleted nat

text \<open>\<open>StoresService.findOne\<close>: \<open>findById\<close>, and \<open>NotFoundException\<close> when there is no such
  store.\<close>

definition findOne :: "Store list \<Rightarrow> objectId \<Rightarrow> exn + Store" where
  "findOne stores ident =
     (case find (\<lambda>s. s_id s = ident) stores of
        None \<Rightarrow> Inl (NotFoundException ''Store not found'')
      | Some store \<Rightarrow> Inr store)"

text \<open>
  \<open>MetricsController.rangeSync(storeId, startDate, endDate)\<close>: the store lookup, the two
  validations, then the same fetch, merge and upsert as the daily sync, without a
  \<open>try\<close>: an exception of a client leaves the controller.  The result is the exception or
  the response, and the state.
\<close>

definition rangeSync ::
  "Env \<Rightarrow> Store list \<Rightarrow> SyncState \<Rightarrow> objectId \<Rightarrow> string \<Rightarrow> string \<Rightarrow> ((exn + Response) \<times> SyncState) option" where
  "rangeSync env stores st ident startDate' endDate' =
     (case findOne stores ident of
        Inl e \<Rightarrow> Some (Inl e, st)
      | Inr store \<Rightarrow>
          (case (parseDate env startDate', parseDate env endDate') of
             (Some from, Some to) \<Rightarrow>
               if from > to then Some (Inr (ErrorObject ''startDate must be before endDate'' 400), st)
               else
                 (case fetchAll env store from to of
                    None \<Rightarrow> None
                  | Some (entries, outcome) \<Rightarrow>
                      (let st' = st\<lparr> audit := audit st @ entries, calls := calls st @ called store \<rparr>
                       in case outcome of
                            Inl e \<Rightarrow> Some (Inl e, st')
                          | Inr (shopifyData, fbData, googleSpend) \<Rightarrow>
                              (let ms = upserted (newDate env) (s_id store) shopifyData fbData googleSpend
                               in Some (Inr (RangeSyncCompleted (length ms)),
                                        st'\<lparr> metrics := foldl createOrUpdate (metrics st') ms \<rparr>))))
           | _ \<Rightarrow> Some (Inr (ErrorObject ''Invalid date format. Use YYYY-MM-DD'' 400), st)))"

section \<open>Example stores and an example world\<close>

text \<open>Concrete inputs on which the theorems below are evaluated.  \<open>demoStore\<close> has every
  credential; in \<open>demoEnv\<close> the Shopify API fails for the store \<open>F\<close> and answers one order
  of 500 with 20 items for any other store, the Facebook API reports a spend of 50, and the
  Google Ads API fails.  \<open>demoInsight\<close> is an ordinary insight row, \<open>zeroInsight\<close> a row without
  impressions, \<open>nanInsight\<close> a row whose spend does not parse, and \<open>hugeInsight\<close> a row with a
  spend of \<open>2 ^ 1023\<close>, a double.  \<open>thirdsOrder\<close> is an order of 100 for three products, one
  of each, and \<open>thirdsApi\<close> answers it on a single page; \<open>goneOrder\<close> is an order of 100 for
  one item of a product and three items of a deleted product.\<close>

definition demoStore :: Store where
  "demoStore =
     \<lparr> s_id = ''S'', name = ''Shop'', shopifyToken = ''shpat'', shopifyStoreUrl = ''shop.example'',
       fbAdSpendToken = Some ''EAAB'', fbAccountId = Some ''act_1'',
       googleAccessToken = None, googleRefreshToken = Some ''1//r'',
       googleCustomerId = Some ''123-456-7890'', googleTokenExpiry = None \<rparr>"

definition demoEnv :: Env where
  "demoEnv =
     \<lparr> shopifyApi = (\<lambda>store day n.
         if s_id store = ''F''
         then Rejected \<lparr> code = None, api_message = None, message = ''Request failed with status code 401'' \<rparr>
         else Resolved \<lparr> errors = False,
                gdata = \<lparr> edges = [\<lparr> amount = 500, lineItems = [\<lparr> quantity = 20, product = None \<rparr>] \<rparr>],
                          hasNextPage = False \<rparr> \<rparr>),
       facebookApi = (\<lambda>store n. Resolved (Some [\<lparr> date_start = ''2024-11-01'', fb_spend = Some (Fin 50) \<rparr>])),
       googleRefresh = (\<lambda>store. Resolved (Some ''ya29'')),
       googleAdsApi = (\<lambda>store.
         Rejected \<lparr> code = None, api_message = None, message = ''Request failed with status code 500'' \<rparr>),
       dateNow = 1730505600000,
       isoDate = (\<lambda>d. ''2024-11-01''),
       newDate = (\<lambda>s. 1730419200000),
       parseDate = (\<lambda>s. if s = ''2025-01-01'' then Some 1735689600000
                        else if s = ''2025-02-01'' then Some 1738368000000 else None) \<rparr>"

definition emptyState :: SyncState where
  "emptyState = \<lparr> metrics = [], audit = [], calls = [], errorLog = [] \<rparr>"





definition tee :: Product where
  "tee = \<lparr> p_id = ''gid://shopify/Product/1'', title = ''Tee'', featuredImage = None, onlineStoreUrl = None \<rparr>"

definition mug :: Product where
  "mug = \<lparr> p_id = ''gid://shopify/Product/2'', title = ''Mug'', featuredImage = None, onlineStoreUrl = None \<rparr>"

definition cap :: Product where
  "cap = \<lparr> p_id = ''gid://shopify/Product/3'', title = ''Cap'', featuredImage = None, onlineStoreUrl = None \<rparr>"

definition thirdsOrder :: Order where
  "thirdsOrder =
     \<lparr> amount = 100,
       lineItems = [\<lparr> quantity = 1, product = Some tee \<rparr>, \<lparr> quantity = 1, product = Some mug \<rparr>,
                    \<lparr> quantity = 1, product = Some cap \<rparr>] \<rparr>"

definition thirdsApi :: "nat \<Rightarrow> OrdersPage Graphql axios" where
  "thirdsApi n = Resolved \<lparr> errors = False, gdata = \<lparr> edges = [thirdsOrder], hasNextPage = False \<rparr> \<rparr>"

definition goneOrder :: Order where
  "goneOrder =
     \<lparr> amount = 100,
       lineItems = [\<lparr> quantity = 1, product = Some tee \<rparr>, \<lparr> quantity = 3, product = None \<rparr>] \<rparr>"

section \<open>Properties\<close>

subsection \<open>Rounding to the nearest double\<close>

text \<open>The binary exponent brackets its argument, rounding to the nearest integer errs by at
  most a half, and so rounding to a double keeps powers of two as bounds, errs by at most
  half a unit in the last place, is finite up to \<open>2 ^ 1023\<close> and exact on the integers up to
  \<open>2 ^ 53\<close>.\<close>

lemma two_powi_pos [simp]: "0 < (2::rat) powi k"
  by simp

lemma two_powi_add: "(2::rat) powi (a + b) = 2 powi a * 2 powi b"
  by (simp add: power_int_add)

lemma two_powi_diff: "(2::rat) powi (a - b) = 2 powi a / 2 powi b"
  by (simp add: power_int_diff)

lemma two_powi_mono: "a \<le> b \<Longrightarrow> (2::rat) powi a \<le> 2 powi b"
  by (simp add: power_int_increasing)

lemma two_powi_strict_mono: "a < b \<Longrightarrow> (2::rat) powi a < 2 powi b"
  by (simp add: power_int_strict_increasing)

lemma bitlen_powi:
  assumes "0 < p"
  shows "(2::rat) powi (bitlen p - 1) \<le> of_int p" and "of_int p < (2::rat) powi bitlen p"
proof -
  from bitlen_bounds [OF assms] have a: "2 ^ nat (bitlen p - 1) \<le> p" and b: "p < 2 ^ nat (bitlen p)"
    by simp_all
  have g: "1 \<le> bitlen p" using assms by (simp add: bitlen_alt_def)
  have "(2::rat) powi (bitlen p - 1) = of_int (2 ^ nat (bitlen p - 1))"
    using g by (simp add: power_int_def)
  also have "\<dots> \<le> of_int p" using a by (simp only: of_int_le_iff)
  finally show "(2::rat) powi (bitlen p - 1) \<le> of_int p" .
  have "(of_int p :: rat) < of_int (2 ^ nat (bitlen p))" using b by (simp only: of_int_less_iff)
  also have "\<dots> = 2 powi bitlen p" using g by (simp add: power_int_def)
  finally show "of_int p < (2::rat) powi bitlen p" .
qed

lemma ilog2_bounds:
  assumes "x \<noteq> 0"
  shows "2 powi ilog2 x \<le> \<bar>x\<bar>" and "\<bar>x\<bar> < 2 powi (ilog2 x + 1)"
proof -
  obtain p q where pq: "quotient_of \<bar>x\<bar> = (p, q)" by (cases "quotient_of \<bar>x\<bar>")
  then have q: "0 < q" and x: "\<bar>x\<bar> = of_int p / of_int q"
    by (rule quotient_of_denom_pos, rule quotient_of_div)
  from assms have "0 < \<bar>x\<bar>" by simp
  with x q have p: "0 < p" by (simp add: zero_less_divide_iff)
  let ?k = "bitlen p - bitlen q"
  note bp = bitlen_powi [OF p] and bq = bitlen_powi [OF q]
  have Q: "0 < (of_int q :: rat)" using q by simp
  have "2 powi ilog2 x \<le> \<bar>x\<bar> \<and> \<bar>x\<bar> < 2 powi (ilog2 x + 1)"
  proof (cases "of_int q * 2 powi ?k \<le> (of_int p :: rat)")
    case True
    then have i: "ilog2 x = ?k" by (simp add: ilog2_def pq)
    from True Q have lo: "2 powi ?k \<le> \<bar>x\<bar>"
      by (simp add: x pos_le_divide_eq mult.commute)
    have "(of_int p :: rat) < 2 powi bitlen p" by (rule bp)
    also have "\<dots> = 2 powi (?k + 1) * 2 powi (bitlen q - 1)"
      by (simp add: two_powi_add [symmetric])
    also have "\<dots> \<le> 2 powi (?k + 1) * of_int q"
      using bq(1) by (simp add: mult_left_mono)
    finally have "\<bar>x\<bar> < 2 powi (?k + 1)"
      using Q by (simp add: x pos_divide_less_eq)
    with lo i show ?thesis by simp
  next
    case False
    then have i: "ilog2 x = ?k - 1" by (simp add: ilog2_def pq)
    from False Q have up: "\<bar>x\<bar> < 2 powi ?k"
      by (simp add: x pos_divide_less_eq mult.commute)
    have "2 powi (?k - 1) * (of_int q :: rat) \<le> 2 powi (?k - 1) * 2 powi bitlen q"
      using bq(2) by (simp add: mult_left_mono)
    also have "\<dots> = 2 powi (bitlen p - 1)"
      by (simp add: two_powi_add [symmetric])
    also have "\<dots> \<le> of_int p" by (rule bp)
    finally have "2 powi (?k - 1) \<le> \<bar>x\<bar>"
      using Q by (simp add: x pos_le_divide_eq)
    with up i show ?thesis by simp
  qed
  then show "2 powi ilog2 x \<le> \<bar>x\<bar>" and "\<bar>x\<bar> < 2 powi (ilog2 x + 1)"
    by simp_all
qed

lemma powi_le_nz: "(2::rat) powi k \<le> \<bar>x\<bar> \<Longrightarrow> x \<noteq> 0"
proof -
  assume a: "(2::rat) powi k \<le> \<bar>x\<bar>"
  have "0 < (2::rat) powi k" by simp
  then have "0 < \<bar>x\<bar>" using a by (rule less_le_trans)
  then show ?thesis by simp
qed

lemma ilog2_unique:
  assumes "2 powi k \<le> \<bar>x\<bar>" and "\<bar>x\<bar> < 2 powi (k + 1)"
  shows "ilog2 x = k"
proof -
  from assms(1) have nz: "x \<noteq> 0" by (rule powi_le_nz)
  note b = ilog2_bounds [OF nz]
  have "\<not> k + 1 \<le> ilog2 x"
  proof
    assume "k + 1 \<le> ilog2 x"
    then have "(2::rat) powi (k + 1) \<le> 2 powi ilog2 x" by (rule two_powi_mono)
    with b(1) assms(2) show False by simp
  qed
  moreover have "\<not> ilog2 x + 1 \<le> k"
  proof
    assume "ilog2 x + 1 \<le> k"
    then have "(2::rat) powi (ilog2 x + 1) \<le> 2 powi k" by (rule two_powi_mono)
    with b(2) assms(1) show False by simp
  qed
  ultimately show ?thesis by simp
qed

lemma ilog2_ge: "2 powi N \<le> \<bar>x\<bar> \<Longrightarrow> N \<le> ilog2 x"
proof (rule ccontr)
  assume a: "2 powi N \<le> \<bar>x\<bar>" and "\<not> N \<le> ilog2 x"
  then have "ilog2 x + 1 \<le> N" by simp
  then have "(2::rat) powi (ilog2 x + 1) \<le> 2 powi N" by (rule two_powi_mono)
  moreover from a have "x \<noteq> 0" by (rule powi_le_nz)
  ultimately show False using ilog2_bounds(2) [of x] a by simp
qed

lemma ilog2_less: "x \<noteq> 0 \<Longrightarrow> \<bar>x\<bar> < 2 powi N \<Longrightarrow> ilog2 x < N"
proof (rule ccontr)
  assume nz: "x \<noteq> 0" and a: "\<bar>x\<bar> < 2 powi N" and "\<not> ilog2 x < N"
  then have "N \<le> ilog2 x" by simp
  then have "(2::rat) powi N \<le> 2 powi ilog2 x" by (rule two_powi_mono)
  with ilog2_bounds(1) [OF nz] a show False by simp
qed


lemma rne_error: "\<bar>of_int (rne y) - y\<bar> \<le> 1 / 2"
proof -
  have "of_int \<lfloor>y\<rfloor> \<le> y" and "y < of_int \<lfloor>y\<rfloor> + 1"
    by linarith+
  then show ?thesis
    by (auto simp add: rne_def Let_def abs_le_iff)
qed

lemma rne_of_int [simp]: "rne (of_int n) = n"
  by (simp add: rne_def)

lemma rne_le: "y \<le> of_int K \<Longrightarrow> rne y \<le> K"
proof -
  assume a: "y \<le> of_int K"
  show ?thesis
  proof (cases "y = of_int K")
    case True
    then show ?thesis by simp
  next
    case False
    with a have "y < of_int K" by simp
    then have "\<lfloor>y\<rfloor> < K" by (simp add: floor_less_iff)
    then show ?thesis by (simp add: rne_def Let_def)
  qed
qed

lemma rne_ge: "of_int K \<le> y \<Longrightarrow> K \<le> rne y"
proof -
  assume "of_int K \<le> y"
  then have "K \<le> \<lfloor>y\<rfloor>" by (simp add: le_floor_iff)
  then show ?thesis by (simp add: rne_def Let_def)
qed

lemma two_powi_int: "0 \<le> n \<Longrightarrow> (2::rat) powi n = of_int (2 ^ nat n)"
  by (simp add: power_int_def)

lemma fl_0 [simp]: "fl 0 = 0"
  by (simp add: fl_def)

lemma fl_abs_le:
  assumes "\<bar>x\<bar> \<le> 2 powi N" and "- 1074 \<le> N"
  shows "\<bar>fl x\<bar> \<le> 2 powi N"
proof (cases "x = 0")
  case True
  then show ?thesis by simp
next
  case False
  define e where "e = max (ilog2 x - 52) (- 1074)"
  have "\<bar>x\<bar> < 2 powi (N + 1)"
    using assms(1) two_powi_strict_mono [of N "N + 1"] by simp
  with False have "ilog2 x < N + 1" by (rule ilog2_less)
  with assms(2) have e: "e \<le> N" by (simp add: e_def)
  define K :: int where "K = 2 ^ nat (N - e)"
  have K: "(2::rat) powi (N - e) = of_int K"
    using e by (simp add: K_def two_powi_int)
  have N: "(2::rat) powi N = of_int K * 2 powi e"
    by (simp add: K [symmetric] two_powi_add [symmetric])
  have "x / 2 powi e \<le> of_int K" and "of_int (- K) \<le> x / 2 powi e"
    using assms(1) by (simp_all add: N pos_divide_le_eq pos_le_divide_eq abs_le_iff)
  then have "rne (x / 2 powi e) \<le> K" and "- K \<le> rne (x / 2 powi e)"
    by (simp_all add: rne_le rne_ge)
  then have "\<bar>rne (x / 2 powi e)\<bar> \<le> K" by simp
  then have "\<bar>of_int (rne (x / 2 powi e)) :: rat\<bar> \<le> of_int K"
    by (simp only: of_int_abs [symmetric] of_int_le_iff)
  then have "\<bar>of_int (rne (x / 2 powi e)) * 2 powi e :: rat\<bar> \<le> of_int K * 2 powi e"
    by (simp add: abs_mult)
  with False show ?thesis by (simp add: fl_def N e_def [symmetric])
qed

lemma fl_ge:
  assumes "2 powi N \<le> x" and "- 1074 \<le> N"
  shows "2 powi N \<le> fl x"
proof -
  have pos: "0 < x" using two_powi_pos [of N] assms(1) by (rule less_le_trans)
  then have nz: "x \<noteq> 0" by simp
  define L where "L = ilog2 x"
  define e where "e = max (L - 52) (- 1074)"
  from pos assms(1) have NL: "N \<le> L" by (simp add: ilog2_ge L_def)
  with assms(2) have e: "e \<le> L" by (simp add: e_def)
  define K :: int where "K = 2 ^ nat (L - e)"
  have K: "(2::rat) powi (L - e) = of_int K"
    using e by (simp add: K_def two_powi_int)
  have L: "(2::rat) powi L = of_int K * 2 powi e"
    by (simp add: K [symmetric] two_powi_add [symmetric])
  have "2 powi L \<le> x"
    using ilog2_bounds(1) [OF nz] pos by (simp add: L_def)
  then have "of_int K \<le> x / 2 powi e"
    by (simp add: L pos_le_divide_eq)
  then have "K \<le> rne (x / 2 powi e)" by (rule rne_ge)
  then have "(of_int K :: rat) \<le> of_int (rne (x / 2 powi e))"
    by (simp only: of_int_le_iff)
  then have "of_int K * 2 powi e \<le> of_int (rne (x / 2 powi e)) * (2::rat) powi e"
    by (simp add: mult_right_mono)
  then have "2 powi L \<le> fl x"
    using nz by (simp add: fl_def L e_def [symmetric] L_def [symmetric])
  moreover have "(2::rat) powi N \<le> 2 powi L" using NL by (rule two_powi_mono)
  ultimately show ?thesis by simp
qed

lemma fl_le:
  assumes "x \<le> - (2 powi N)" and "- 1074 \<le> N"
  shows "fl x \<le> - (2 powi N)"
proof -
  have "0 < (2::rat) powi N" by simp
  with assms(1) have neg: "x < 0" by linarith
  then have nz: "x \<noteq> 0" by simp
  define L where "L = ilog2 x"
  define e where "e = max (L - 52) (- 1074)"
  from neg assms(1) have "2 powi N \<le> \<bar>x\<bar>" by simp
  then have NL: "N \<le> L" unfolding L_def by (rule ilog2_ge)
  with assms(2) have e: "e \<le> L" by (simp add: e_def)
  define K :: int where "K = 2 ^ nat (L - e)"
  have K: "(2::rat) powi (L - e) = of_int K"
    using e by (simp add: K_def two_powi_int)
  have L: "(2::rat) powi L = of_int K * 2 powi e"
    by (simp add: K [symmetric] two_powi_add [symmetric])
  have "x \<le> - (2 powi L)"
    using ilog2_bounds(1) [OF nz] neg by (simp add: L_def)
  then have "x / 2 powi e \<le> of_int (- K)"
    by (simp add: L pos_divide_le_eq)
  then have "rne (x / 2 powi e) \<le> - K" by (rule rne_le)
  then have "(of_int (rne (x / 2 powi e)) :: rat) \<le> of_int (- K)"
    by (simp only: of_int_le_iff)
  then have "of_int (rne (x / 2 powi e)) * (2::rat) powi e \<le> of_int (- K) * 2 powi e"
    by (rule mult_right_mono) simp
  then have "fl x \<le> - (2 powi L)"
    using nz by (simp add: fl_def L e_def [symmetric] L_def [symmetric])
  moreover have "(2::rat) powi N \<le> 2 powi L" using NL by (rule two_powi_mono)
  ultimately show ?thesis by simp
qed

lemma fl_error:
  assumes "x \<noteq> 0" and "- 1022 \<le> ilog2 x"
  shows "\<bar>fl x - x\<bar> \<le> 2 powi (ilog2 x - 53)"
proof -
  define e where "e = ilog2 x - 52"
  from assms(2) have m: "max (ilog2 x - 52) (- 1074) = e" by (simp add: e_def)
  define y where "y = x / 2 powi e"
  have x: "x = y * 2 powi e" by (simp add: y_def)
  have "fl x - x = (of_int (rne y) - y) * 2 powi e"
    using assms(1) by (simp add: fl_def m y_def [symmetric] x [symmetric] algebra_simps)
  then have "\<bar>fl x - x\<bar> = \<bar>of_int (rne y) - y\<bar> * 2 powi e"
    by (simp add: abs_mult)
  also have "\<dots> \<le> 1 / 2 * 2 powi e"
    using rne_error [of y] by (simp add: mult_right_mono)
  also have "\<dots> = 2 powi (ilog2 x - 53)"
    by (simp add: e_def two_powi_diff)
  finally show ?thesis .
qed

lemma fl_rel:
  assumes "2 powi (- 1022) \<le> \<bar>x\<bar>"
  shows "\<bar>fl x - x\<bar> \<le> \<bar>x\<bar> / 2 ^ 53"
proof -
  from assms have nz: "x \<noteq> 0" by (rule powi_le_nz)
  from assms have "- 1022 \<le> ilog2 x" by (rule ilog2_ge)
  with nz have "\<bar>fl x - x\<bar> \<le> 2 powi (ilog2 x - 53)" by (rule fl_error)
  also have "\<dots> = 2 powi ilog2 x / 2 ^ 53"
    by (simp add: two_powi_diff)
  also have "\<dots> \<le> \<bar>x\<bar> / 2 ^ 53"
    using ilog2_bounds(1) [OF nz] by (simp add: divide_right_mono)
  finally show ?thesis .
qed

lemma rnd_Fin: "\<bar>x\<bar> \<le> 2 powi 1023 \<Longrightarrow> rnd x = Fin (fl x)"
proof -
  assume "\<bar>x\<bar> \<le> 2 powi 1023"
  then have "\<bar>fl x\<bar> \<le> 2 powi 1023" by (rule fl_abs_le) simp
  moreover have "(2::rat) powi 1023 < 2 powi 1024" by (rule two_powi_strict_mono) simp
  ultimately have "\<bar>fl x\<bar> < 2 powi 1024" by simp
  then have "fl x = 0 \<or> ilog2 (fl x) < 1024" by (auto intro: ilog2_less)
  then show ?thesis by (auto simp add: rnd_def Let_def)
qed


lemma rnd_NegInf: "x \<le> - (2 powi 1024) \<Longrightarrow> rnd x = NegInf"
proof -
  assume "x \<le> - (2 powi 1024)"
  then have a: "fl x \<le> - (2 powi 1024)" by (rule fl_le) simp
  have "0 < (2::rat) powi 1024" by simp
  with a have p: "fl x < 0" by linarith
  with a have "2 powi 1024 \<le> \<bar>fl x\<bar>" by simp
  then have "1024 \<le> ilog2 (fl x)" by (rule ilog2_ge)
  with p show ?thesis by (simp add: rnd_def Let_def)
qed

lemma fl_exact:
  assumes "x / 2 powi (max (ilog2 x - 52) (- 1074)) = of_int k"
  shows "fl x = x"
proof (cases "x = 0")
  case True
  then show ?thesis by simp
next
  case False
  define e where "e = max (ilog2 x - 52) (- 1074)"
  from assms have "of_int (rne (x / 2 powi e)) * 2 powi e = x / 2 powi e * 2 powi e"
    by (simp add: e_def)
  then show ?thesis using False by (simp add: fl_def e_def [symmetric])
qed

lemma fl_of_int:
  assumes "\<bar>n\<bar> \<le> 2 ^ 53"
  shows "fl (of_int n) = of_int n"
proof (cases "n = 0")
  case True
  then show ?thesis by simp
next
  case False
  define x :: rat where "x = of_int n"
  define L where "L = ilog2 x"
  have nz: "x \<noteq> 0" using False by (simp add: x_def)
  have ax: "\<bar>x\<bar> = of_int \<bar>n\<bar>" by (simp add: x_def)
  have "1 \<le> \<bar>n\<bar>" using False by simp
  then have "(1::rat) \<le> of_int \<bar>n\<bar>" by (simp only: of_int_1_le_iff)
  then have "2 powi 0 \<le> \<bar>x\<bar>" by (simp add: ax)
  then have L0: "0 \<le> L" unfolding L_def by (rule ilog2_ge)
  have up: "\<bar>x\<bar> \<le> 2 ^ 53"
    using assms unfolding ax by (metis of_int_le_iff of_int_numeral of_int_power)
  have "\<bar>x\<bar> < 2 powi 54" using up by simp
  with nz have "L < 54" unfolding L_def by (rule ilog2_less)
  have e: "max (L - 52) (- 1074) = L - 52" using L0 by simp
  show ?thesis
  proof (cases "L \<le> 52")
    case True
    have "x / 2 powi (L - 52) = x * 2 powi (52 - L)"
      by (simp add: power_int_diff)
    also have "\<dots> = of_int (n * 2 ^ nat (52 - L))"
      using True by (simp add: x_def two_powi_int)
    finally have "x / 2 powi (max (ilog2 x - 52) (- 1074)) = of_int (n * 2 ^ nat (52 - L))"
      by (simp add: e L_def [symmetric])
    then have "fl x = x" by (rule fl_exact)
    then show ?thesis by (simp add: x_def)
  next
    case False
    with \<open>L < 54\<close> have L: "L = 53" by simp
    have "2 powi L \<le> \<bar>x\<bar>" unfolding L_def using nz by (rule ilog2_bounds)
    with up have "\<bar>x\<bar> = 2 ^ 53" by (simp add: L)
    then have "x = 2 ^ 53 \<or> x = - (2 ^ 53)" by (simp add: abs_if split: if_splits)
    then have "x / 2 powi (L - 52) = of_int (2 ^ 52) \<or> x / 2 powi (L - 52) = of_int (- (2 ^ 52))"
      by (auto simp add: L)
    then obtain k :: int where "x / 2 powi (max (ilog2 x - 52) (- 1074)) = of_int k"
      unfolding e L_def [symmetric] by blast
    then have "fl x = x" by (rule fl_exact)
    then show ?thesis by (simp add: x_def)
  qed
qed

lemma rnd_of_int: "\<bar>n\<bar> \<le> 2 ^ 53 \<Longrightarrow> rnd (of_int n) = Fin (of_int n)"
proof -
  assume a: "\<bar>n\<bar> \<le> 2 ^ 53"
  then have "(of_int \<bar>n\<bar> :: rat) \<le> of_int (2 ^ 53)" by (simp only: of_int_le_iff)
  then have "\<bar>of_int n :: rat\<bar> \<le> 2 powi 53" by simp
  also have "(2::rat) powi 53 \<le> 2 powi 1023" by (rule two_powi_mono) simp
  finally have "rnd (of_int n) = Fin (fl (of_int n))" by (rule rnd_Fin)
  with a show ?thesis by (simp add: fl_of_int)
qed

lemma rnd_small: "rnd 0 = Fin 0" "rnd 1 = Fin 1" "rnd 20 = Fin 20" "rnd 100 = Fin 100" "rnd 500 = Fin 500"
  using rnd_of_int [of 0] rnd_of_int [of 1] rnd_of_int [of 20] rnd_of_int [of 100] rnd_of_int [of 500]
  by simp_all

subsection \<open>Merge by date\<close>

lemma map_fst_modify: "map fst (modify m k f) = map fst m"
  by (induction m) auto

lemma map_of_modify:
  "map_of (modify m k f) x = (if x = k then map_option f (map_of m k) else map_of m x)"
  by (induction m) auto

lemma has_iff: "has m k \<longleftrightarrow> k \<in> set (map fst m)"
  by (simp add: has_def map_of_eq_None_iff)

lemma map_fst_getOrCreateEntry:
  "map fst (getOrCreateEntry nd sid m k) = (if k \<in> set (map fst m) then map fst m else map fst m @ [k])"
  by (simp add: getOrCreateEntry_def has_iff)

lemma map_of_getOrCreateEntry:
  "map_of (getOrCreateEntry nd sid m k) x =
     (if x = k then Some (case map_of m k of None \<Rightarrow> newEntry nd sid k | Some e \<Rightarrow> e) else map_of m x)"
  by (auto simp: getOrCreateEntry_def has_def map_add_def split: option.splits)

lemma set_touch: "set (map fst (touch nd sid key upd m row)) = insert (key row) (set (map fst m))"
  by (auto simp: touch_def map_fst_modify map_fst_getOrCreateEntry)

lemma distinct_touch: "distinct (map fst m) \<Longrightarrow> distinct (map fst (touch nd sid key upd m row))"
  by (auto simp: touch_def map_fst_modify map_fst_getOrCreateEntry)

lemma map_of_touch:
  "map_of (touch nd sid key upd m row) x =
     (if x = key row then Some (upd row (case map_of m x of None \<Rightarrow> newEntry nd sid x | Some e \<Rightarrow> e))
      else map_of m x)"
  by (auto simp: touch_def map_of_modify map_of_getOrCreateEntry)

lemma set_foldl_touch:
  "set (map fst (foldl (touch nd sid key upd) m rows)) = set (map fst m) \<union> key ` set rows"
  by (induction rows arbitrary: m) (auto simp: set_touch simp del: set_map)

lemma distinct_foldl_touch:
  "distinct (map fst m) \<Longrightarrow> distinct (map fst (foldl (touch nd sid key upd) m rows))"
  by (induction rows arbitrary: m) (auto simp: distinct_touch)

lemma reported_snoc:
  "reported key (rows @ [r]) d = (if key r = d then Some r else reported key rows d)"
  by (simp add: reported_def)

lemma map_of_foldl_touch:
  assumes over: "\<And>r1 r2 e. upd r2 (upd r1 e) = upd r2 e"
  shows "map_of (foldl (touch nd sid key upd) m rows) d =
     (case reported key rows d of
        None \<Rightarrow> map_of m d
      | Some r \<Rightarrow> Some (upd r (case map_of m d of None \<Rightarrow> newEntry nd sid d | Some e \<Rightarrow> e)))"
proof (induction rows rule: rev_induct)
  case Nil
  show ?case by (simp add: reported_def)
next
  case (snoc r rows)
  show ?case
  proof (cases "key r = d")
    case True
    then show ?thesis
      by (cases "reported key rows d") (simp_all add: map_of_touch reported_snoc snoc over)
  next
    case False
    then show ?thesis
      by (simp add: map_of_touch reported_snoc snoc)
  qed
qed

lemma processShopify_touch:
  "processShopify nd sid = touch nd sid os_date
     (\<lambda>row entry. entry\<lparr> shopifySoldOrders := soldOrders row,
                       shopifyOrderValue := orderValue row,
                       shopifySoldItems := soldItems row \<rparr>)"
  by (intro ext) (simp add: processShopify_def touch_def)

lemma processFacebook_touch:
  "processFacebook nd sid = touch nd sid as_date (\<lambda>row entry. entry\<lparr> facebookMetaSpend := spend row \<rparr>)"
  by (intro ext) (simp add: processFacebook_def touch_def)

lemma processGoogle_touch:
  "processGoogle nd sid = touch nd sid as_date (\<lambda>row entry. entry\<lparr> googleAdSpend := spend row \<rparr>)"
  by (intro ext) (simp add: processGoogle_def touch_def)

lemmas process_touch = processShopify_touch processFacebook_touch processGoogle_touch

lemma reported_None_iff: "reported key rows d = None \<longleftrightarrow> d \<notin> key ` set rows"
  by (auto simp: reported_def find_None_iff)

lemma keys_mergeByDate:
  "set (map fst (mergeByDate nd sid S F G)) = os_date ` set S \<union> as_date ` set F \<union> as_date ` set G"
  by (simp add: mergeByDate_def process_touch set_foldl_touch del: set_map)

lemma distinct_mergeByDate: "distinct (map fst (mergeByDate nd sid S F G))"
  by (simp add: mergeByDate_def process_touch distinct_foldl_touch)

lemma map_of_mergeByDate:
  "map_of (mergeByDate nd sid S F G) d =
     (if d \<in> os_date ` set S \<union> as_date ` set F \<union> as_date ` set G
      then Some (expectedEntry nd sid S F G d) else None)"
proof -
  have m: "map_of (mergeByDate nd sid S F G) d =
     (case reported as_date G d of
        None \<Rightarrow>
          (case reported as_date F d of
             None \<Rightarrow>
               (case reported os_date S d of None \<Rightarrow> None
                | Some r \<Rightarrow> Some ((newEntry nd sid d)\<lparr> shopifySoldOrders := soldOrders r,
                       shopifyOrderValue := orderValue r, shopifySoldItems := soldItems r \<rparr>))
           | Some f \<Rightarrow>
               Some ((case reported os_date S d of None \<Rightarrow> newEntry nd sid d
                | Some r \<Rightarrow> (newEntry nd sid d)\<lparr> shopifySoldOrders := soldOrders r,
                       shopifyOrderValue := orderValue r, shopifySoldItems := soldItems r \<rparr>)
                 \<lparr> facebookMetaSpend := spend f \<rparr>))
      | Some g \<Rightarrow>
          Some ((case reported as_date F d of
             None \<Rightarrow>
               (case reported os_date S d of None \<Rightarrow> newEntry nd sid d
                | Some r \<Rightarrow> (newEntry nd sid d)\<lparr> shopifySoldOrders := soldOrders r,
                       shopifyOrderValue := orderValue r, shopifySoldItems := soldItems r \<rparr>)
           | Some f \<Rightarrow>
               (case reported os_date S d of None \<Rightarrow> newEntry nd sid d
                | Some r \<Rightarrow> (newEntry nd sid d)\<lparr> shopifySoldOrders := soldOrders r,
                       shopifyOrderValue := orderValue r, shopifySoldItems := soldItems r \<rparr>)
                 \<lparr> facebookMetaSpend := spend f \<rparr>) \<lparr> googleAdSpend := spend g \<rparr>))"
    unfolding mergeByDate_def process_touch
    by (simp add: map_of_foldl_touch split: option.split)
  show ?thesis
  proof (cases "reported os_date S d")
    case None
    note s = this
    show ?thesis
    proof (cases "reported as_date F d")
      case None
      note f = this
      show ?thesis
        by (cases "reported as_date G d")
           (use s f in \<open>simp_all add: m expectedEntry_def newEntry_def flip: reported_None_iff\<close>)
    next
      case (Some a)
      note f = this
      show ?thesis
        by (cases "reported as_date G d")
           (use s f in \<open>simp_all add: m expectedEntry_def newEntry_def flip: reported_None_iff\<close>)
    qed
  next
    case (Some r)
    note s = this
    show ?thesis
    proof (cases "reported as_date F d")
      case None
      note f = this
      show ?thesis
        by (cases "reported as_date G d")
           (use s f in \<open>simp_all add: m expectedEntry_def newEntry_def flip: reported_None_iff\<close>)
    next
      case (Some a)
      note f = this
      show ?thesis
        by (cases "reported as_date G d")
           (use s f in \<open>simp_all add: m expectedEntry_def newEntry_def flip: reported_None_iff\<close>)
    qed
  qed
qed

lemma map_snd_by_map_of:
  "distinct (map fst m) \<Longrightarrow> map snd m = map (\<lambda>k. the (map_of m k)) (map fst m)"
proof (induction m)
  case Nil
  show ?case by simp
next
  case (Cons p m)
  obtain k v where p: "p = (k, v)" by (cases p)
  from Cons.prems have nk: "k \<notin> set (map fst m)" and dm: "distinct (map fst m)"
    by (simp_all add: p)
  have "map (\<lambda>x. the (map_of (p # m) x)) (map fst m) = map (\<lambda>x. the (map_of m x)) (map fst m)"
    by (rule map_cong [OF refl]) (use nk in \<open>auto simp: p\<close>)
  then show ?case using Cons.IH [OF dm] by (simp add: p)
qed

text \<open>
  Claim C1.  The merge-by-date step yields per-date records whose dates are exactly the union
  of the dates of the Shopify, Facebook and Google arrays, one record per distinct date.  A
  record starts with its five metric fields at 0; the record of a date \<open>d\<close> carries the values
  a vendor reported for \<open>d\<close> in that vendor's fields and 0 in the fields of a vendor that did
  not report \<open>d\<close> (\<open>expectedEntry\<close>).  The records upserted are these, each once.
\<close>

theorem mergeByDate_union:
  "getOrCreateEntry nd sid [] d =
     [(d, \<lparr> storeId = sid, date = nd d, facebookMetaSpend = 0, googleAdSpend = 0,
            shopifySoldOrders = 0, shopifyOrderValue = 0, shopifySoldItems = 0 \<rparr>)]
   \<and> set (map fst (mergeByDate nd sid S F G)) = os_date ` set S \<union> as_date ` set F \<union> as_date ` set G
   \<and> distinct (map fst (mergeByDate nd sid S F G))
   \<and> map_of (mergeByDate nd sid S F G) d =
       (if d \<in> os_date ` set S \<union> as_date ` set F \<union> as_date ` set G
        then Some (expectedEntry nd sid S F G d) else None)
   \<and> upserted nd sid S F G = map (expectedEntry nd sid S F G) (map fst (mergeByDate nd sid S F G))
   \<and> length (upserted nd sid S F G) = card (os_date ` set S \<union> as_date ` set F \<union> as_date ` set G)"
proof -
  let ?m = "mergeByDate nd sid S F G"
  have k: "set (map fst ?m) = os_date ` set S \<union> as_date ` set F \<union> as_date ` set G"
    by (rule keys_mergeByDate)
  have d: "distinct (map fst ?m)" by (rule distinct_mergeByDate)
  have u: "upserted nd sid S F G = map (expectedEntry nd sid S F G) (map fst ?m)"
    unfolding upserted_def map_snd_by_map_of [OF d]
  proof (rule map_cong [OF refl])
    fix x assume "x \<in> set (map fst ?m)"
    then have "x \<in> os_date ` set S \<union> as_date ` set F \<union> as_date ` set G" by (simp only: k)
    then show "the (map_of ?m x) = expectedEntry nd sid S F G x"
      by (simp only: map_of_mergeByDate if_True option.sel)
  qed
  have "length (upserted nd sid S F G) = length (map fst ?m)" by (simp add: upserted_def)
  also have "\<dots> = card (set (map fst ?m))" using d by (simp only: distinct_card)
  finally have l: "length (upserted nd sid S F G) = card (os_date ` set S \<union> as_date ` set F \<union> as_date ` set G)"
    by (simp only: k)
  have z: "getOrCreateEntry nd sid [] d =
     [(d, \<lparr> storeId = sid, date = nd d, facebookMetaSpend = 0, googleAdSpend = 0,
            shopifySoldOrders = 0, shopifyOrderValue = 0, shopifySoldItems = 0 \<rparr>)]"
    by (simp add: getOrCreateEntry_def has_def newEntry_def)
  show ?thesis by (intro conjI z k d u l map_of_mergeByDate)
qed

theorem mergeByDate_union_witness:
  "map_of (mergeByDate (\<lambda>s. if s = ''2024-11-01'' then 1730419200000 else 1730505600000) ''S''
      [\<lparr> os_date = ''2024-11-01'', soldOrders = Fin 10, orderValue = Fin 500, soldItems = Fin 20 \<rparr>,
       \<lparr> os_date = ''2024-11-02'', soldOrders = Fin 1, orderValue = Fin 40, soldItems = Fin 3 \<rparr>]
      [\<lparr> as_date = ''2024-11-02'', spend = Fin 50 \<rparr>, \<lparr> as_date = ''2024-11-03'', spend = Fin 7 \<rparr>]
      [\<lparr> as_date = ''2024-11-01'', spend = Fin 30 \<rparr>, \<lparr> as_date = ''2024-11-03'', spend = Fin 9 \<rparr>])
     ''2024-11-01'' =
     Some \<lparr> storeId = ''S'', date = 1730419200000, facebookMetaSpend = 0, googleAdSpend = Fin 30,
            shopifySoldOrders = Fin 10, shopifyOrderValue = Fin 500, shopifySoldItems = Fin 20 \<rparr>
   \<and> length (upserted (\<lambda>s. if s = ''2024-11-01'' then 1730419200000 else 1730505600000) ''S''
      [\<lparr> os_date = ''2024-11-01'', soldOrders = Fin 10, orderValue = Fin 500, soldItems = Fin 20 \<rparr>,
       \<lparr> os_date = ''2024-11-02'', soldOrders = Fin 1, orderValue = Fin 40, soldItems = Fin 3 \<rparr>]
      [\<lparr> as_date = ''2024-11-02'', spend = Fin 50 \<rparr>, \<lparr> as_date = ''2024-11-03'', spend = Fin 7 \<rparr>]
      [\<lparr> as_date = ''2024-11-01'', spend = Fin 30 \<rparr>, \<lparr> as_date = ''2024-11-03'', spend = Fin 9 \<rparr>]) = 3"
proof -
  let ?nd = "\<lambda>s. if s = ''2024-11-01'' then 1730419200000 else (1730505600000 :: int)"
  let ?S = "[\<lparr> os_date = ''2024-11-01'', soldOrders = Fin 10, orderValue = Fin 500, soldItems = Fin 20 \<rparr>,
       \<lparr> os_date = ''2024-11-02'', soldOrders = Fin 1, orderValue = Fin 40, soldItems = Fin 3 \<rparr>]"
  let ?F = "[\<lparr> as_date = ''2024-11-02'', spend = Fin 50 \<rparr>, \<lparr> as_date = ''2024-11-03'', spend = Fin 7 \<rparr>]"
  let ?G = "[\<lparr> as_date = ''2024-11-01'', spend = Fin 30 \<rparr>, \<lparr> as_date = ''2024-11-03'', spend = Fin 9 \<rparr>]"
  note t = mergeByDate_union [of ?nd "''S''" "''2024-11-01''" ?S ?F ?G]
  from t have a: "map_of (mergeByDate ?nd ''S'' ?S ?F ?G) ''2024-11-01'' =
      (if ''2024-11-01'' \<in> os_date ` set ?S \<union> as_date ` set ?F \<union> as_date ` set ?G
       then Some (expectedEntry ?nd ''S'' ?S ?F ?G ''2024-11-01'') else None)"
    by (elim conjE)
  from t have b: "length (upserted ?nd ''S'' ?S ?F ?G) =
      card (os_date ` set ?S \<union> as_date ` set ?F \<union> as_date ` set ?G)"
    by (elim conjE)
  have c: "card (os_date ` set ?S \<union> as_date ` set ?F \<union> as_date ` set ?G) = 3"
    by (simp add: card_insert_if)
  show ?thesis
    unfolding a b c by (simp add: expectedEntry_def reported_def)
qed

subsection \<open>Daily store metrics: upsert\<close>

lemma keys_createOrUpdate:
  "map metric_key (createOrUpdate db i) =
     (if metric_key i \<in> set (map metric_key db) then map metric_key db else map metric_key db @ [metric_key i])"
  by (induction db) (auto simp: metric_key_def)

lemma distinct_createOrUpdate:
  "distinct (map metric_key db) \<Longrightarrow> distinct (map metric_key (createOrUpdate db i))"
  by (simp add: keys_createOrUpdate)

lemma distinct_foldl_createOrUpdate:
  "distinct (map metric_key db) \<Longrightarrow> distinct (map metric_key (foldl createOrUpdate db inputs))"
  by (induction inputs arbitrary: db) (simp_all add: distinct_createOrUpdate)

lemma filter_createOrUpdate:
  "distinct (map metric_key db) \<Longrightarrow>
     filter (\<lambda>doc. metric_key doc = metric_key i) (createOrUpdate db i) = [i]"
proof (induction db)
  case Nil
  show ?case by (simp add: metric_key_def)
next
  case (Cons doc db)
  show ?case
  proof (cases "metric_key doc = metric_key i")
    case True
    with Cons.prems have "metric_key i \<notin> metric_key ` set db" by simp
    then have "filter (\<lambda>d. metric_key d = metric_key i) db = []"
      unfolding filter_empty_conv by (metis imageI)
    with True show ?thesis by (simp add: metric_key_def)
  next
    case False
    with Cons show ?thesis by (auto simp: metric_key_def)
  qed
qed

lemma length_createOrUpdate:
  "length (createOrUpdate db i) =
     (if metric_key i \<in> set (map metric_key db) then length db else Suc (length db))"
  using arg_cong [OF keys_createOrUpdate [of db i], of length] by (simp split: if_splits)

lemma others_createOrUpdate:
  "filter (\<lambda>doc. metric_key doc \<noteq> metric_key i) (createOrUpdate db i) =
   filter (\<lambda>doc. metric_key doc \<noteq> metric_key i) db"
  by (induction db) (auto simp: metric_key_def)

text \<open>
  Claim C2.  Starting from a collection that respects the unique index on (storeId, date),
  any number of \<open>createOrUpdate\<close> calls leaves at most one row per (store, date); after a
  sync for (S, D) the collection holds exactly one row for (S, D) and its fields are those of
  the latest input (a full replace: the earlier values are not added to), and a sync for a
  pair that already has a row does not add a row.
\<close>

theorem createOrUpdate_unique_replace:
  assumes "distinct (map metric_key db)"
  shows "distinct (map metric_key (foldl createOrUpdate db (inputs @ [i])))
    \<and> filter (\<lambda>doc. metric_key doc = metric_key i) (foldl createOrUpdate db (inputs @ [i])) = [i]
    \<and> length (createOrUpdate (foldl createOrUpdate db inputs) i) =
        (if metric_key i \<in> set (map metric_key (foldl createOrUpdate db inputs))
         then length (foldl createOrUpdate db inputs) else Suc (length (foldl createOrUpdate db inputs)))"
proof -
  have d: "distinct (map metric_key (foldl createOrUpdate db inputs))"
    using assms by (rule distinct_foldl_createOrUpdate)
  show ?thesis
    using d by (simp add: distinct_createOrUpdate filter_createOrUpdate length_createOrUpdate del: set_map)
qed


theorem createOrUpdate_unique_replace_witness:
  "distinct (map metric_key [])
   \<and> foldl createOrUpdate []
        ([\<lparr> storeId = ''S'', date = 1730419200000, facebookMetaSpend = Fin 50, googleAdSpend = Fin 30,
            shopifySoldOrders = Fin 10, shopifyOrderValue = Fin 500, shopifySoldItems = Fin 20 \<rparr>] @
         [\<lparr> storeId = ''S'', date = 1730419200000, facebookMetaSpend = Fin 55, googleAdSpend = 0,
            shopifySoldOrders = Fin 11, shopifyOrderValue = Fin 520, shopifySoldItems = Fin 21 \<rparr>]) =
       [\<lparr> storeId = ''S'', date = 1730419200000, facebookMetaSpend = Fin 55, googleAdSpend = 0,
            shopifySoldOrders = Fin 11, shopifyOrderValue = Fin 520, shopifySoldItems = Fin 21 \<rparr>]"
  using createOrUpdate_unique_replace [of "[]"
      "[\<lparr> storeId = ''S'', date = 1730419200000, facebookMetaSpend = Fin 50, googleAdSpend = Fin 30,
            shopifySoldOrders = Fin 10, shopifyOrderValue = Fin 500, shopifySoldItems = Fin 20 \<rparr>]"
      "\<lparr> storeId = ''S'', date = 1730419200000, facebookMetaSpend = Fin 55, googleAdSpend = 0,
            shopifySoldOrders = Fin 11, shopifyOrderValue = Fin 520, shopifySoldItems = Fin 21 \<rparr>"]
  by (simp add: metric_key_def)

subsection \<open>Product metrics: reset then resync\<close>

lemma keys_upsertProductMetric:
  "map product_key (upsertProductMetric now docs i) =
     (if (ps_storeId i, productId i) \<in> set (map product_key docs) then map product_key docs
      else map product_key docs @ [(ps_storeId i, productId i)])"
  by (induction docs) (auto simp: product_key_def)

lemma sumQ_upsertProductMetric:
  "sumQ (upsertProductMetric now docs i) k =
     sumQ docs k + (if k = (ps_storeId i, productId i) then quantitySold i else 0)"
  by (induction docs) (auto simp: sumQ_def product_key_def ac_simps)

lemma sumR_upsertProductMetric:
  "sumR (upsertProductMetric now docs i) k =
     sumR docs k + (if k = (ps_storeId i, productId i) then revenue i else 0)"
  by (induction docs) (auto simp: sumR_def product_key_def ac_simps)

lemma keys_resetStoreProducts: "map product_key (resetStoreProducts sid docs) = map product_key docs"
  by (induction docs) (auto simp: resetStoreProducts_def product_key_def)

lemma sumQ_resetStoreProducts: "sumQ (resetStoreProducts sid docs) (sid, p) = 0"
  by (induction docs) (auto simp: resetStoreProducts_def sumQ_def product_key_def)

lemma sumR_resetStoreProducts: "sumR (resetStoreProducts sid docs) (sid, p) = 0"
  by (induction docs) (auto simp: resetStoreProducts_def sumR_def product_key_def)

lemma distinct_upsertProducts:
  "distinct (map product_key docs) \<Longrightarrow> distinct (map product_key (upsertProducts clock k sid docs ps))"
  by (induction ps arbitrary: docs k) (simp_all add: keys_upsertProductMetric)

lemma keys_upsertProducts:
  "set (map product_key (upsertProducts clock k sid docs ps)) =
     set (map product_key docs) \<union> (\<lambda>x. (sid, productId x)) ` set ps"
  by (induction ps arbitrary: docs k) (auto simp: keys_upsertProductMetric simp del: set_map)

lemma sumQ_upsertProducts:
  "sumQ (upsertProducts clock k sid docs ps) (sid, p) = sumQ docs (sid, p) + batchQuantity ps p"
  by (induction ps arbitrary: docs k) (auto simp: sumQ_upsertProductMetric batchQuantity_def ac_simps)

lemma sumR_upsertProducts:
  "sumR (upsertProducts clock k sid docs ps) (sid, p) = sumR docs (sid, p) + batchRevenue ps p"
  by (induction ps arbitrary: docs k) (auto simp: sumR_upsertProductMetric batchRevenue_def ac_simps)

lemma filter_key_single:
  "distinct (map f docs) \<Longrightarrow> d \<in> set docs \<Longrightarrow> filter (\<lambda>x. f x = f d) docs = [d]"
proof (induction docs)
  case Nil
  then show ?case by simp
next
  case (Cons a docs)
  show ?case
  proof (cases "a = d")
    case True
    from Cons.prems have "f d \<notin> f ` set docs" by (simp add: True)
    then have "filter (\<lambda>x. f x = f d) docs = []"
      unfolding filter_empty_conv by (metis imageI)
    then show ?thesis by (simp add: True)
  next
    case False
    with Cons.prems have d: "d \<in> set docs" by simp
    with Cons.prems have "f a \<noteq> f d" by (metis distinct.simps(2) imageI list.simps(9) set_map)
    with Cons d show ?thesis by simp
  qed
qed

text \<open>
  Claim C3.  After reset-then-resync of a store with a fetched batch, in a collection that
  respects the unique index on (storeId, productId), every product row of the store has
  \<open>totalQuantitySold\<close> and \<open>totalRevenue\<close> equal to the sums of the batch's items for that
  product (0 for a product the batch does not mention), whatever the totals were before; every
  product of the batch has a row; the index stays unique.
\<close>

theorem resyncProducts_totals:
  assumes "distinct (map product_key docs)"
  shows "distinct (map product_key (resyncProducts clock sid docs productSales))
    \<and> (\<forall>doc \<in> set (resyncProducts clock sid docs productSales).
          pm_storeId doc = sid \<longrightarrow>
            totalQuantitySold doc = batchQuantity productSales (pm_productId doc)
          \<and> totalRevenue doc = batchRevenue productSales (pm_productId doc))
    \<and> (\<forall>x \<in> set productSales. (sid, productId x) \<in> set (map product_key (resyncProducts clock sid docs productSales)))"
proof -
  let ?r = "resyncProducts clock sid docs productSales"
  have d: "distinct (map product_key ?r)"
    unfolding resyncProducts_def
    by (rule distinct_upsertProducts) (simp add: keys_resetStoreProducts assms)
  have q: "sumQ ?r (sid, p) = batchQuantity productSales p" for p
    by (simp add: resyncProducts_def sumQ_upsertProducts sumQ_resetStoreProducts)
  have r: "sumR ?r (sid, p) = batchRevenue productSales p" for p
    by (simp add: resyncProducts_def sumR_upsertProducts sumR_resetStoreProducts)
  have one: "totalQuantitySold doc = batchQuantity productSales (pm_productId doc)
      \<and> totalRevenue doc = batchRevenue productSales (pm_productId doc)"
    if m: "doc \<in> set ?r" and s: "pm_storeId doc = sid" for doc
  proof -
    have f: "filter (\<lambda>x. product_key x = product_key doc) ?r = [doc]"
      using d m by (rule filter_key_single)
    have k: "product_key doc = (sid, pm_productId doc)" by (simp add: product_key_def s)
    from q [of "pm_productId doc"] r [of "pm_productId doc"] show ?thesis
      unfolding sumQ_def sumR_def k [symmetric] f by simp
  qed
  have k: "\<forall>x \<in> set productSales. (sid, productId x) \<in> set (map product_key ?r)"
    unfolding resyncProducts_def keys_upsertProducts by simp
  show ?thesis using d one k by (intro conjI ballI impI) auto
qed

theorem resyncProducts_totals_witness:
  "distinct (map product_key
      [\<lparr> pm_storeId = ''S'', pm_productId = ''P1'', pm_productName = ''Mug'', pm_productImage = [],
         pm_productUrl = [], totalQuantitySold = Fin 5, totalRevenue = Fin 100, pm_lastSyncDate = 0 \<rparr>])
   \<and> map (\<lambda>doc. (pm_productId doc, totalQuantitySold doc, totalRevenue doc))
       (resyncProducts (\<lambda>k. 1) ''S''
         [\<lparr> pm_storeId = ''S'', pm_productId = ''P1'', pm_productName = ''Mug'', pm_productImage = [],
            pm_productUrl = [], totalQuantitySold = Fin 5, totalRevenue = Fin 100, pm_lastSyncDate = 0 \<rparr>]
         [\<lparr> productId = ''P1'', productName = ''Mug'', productImage = [], productUrl = [],
            quantitySold = Fin 2, revenue = Fin 20 \<rparr>,
          \<lparr> productId = ''P2'', productName = ''Cup'', productImage = [], productUrl = [],
            quantitySold = Fin 1, revenue = Fin 10 \<rparr>])
     = [(''P1'', Fin 2, Fin 20), (''P2'', Fin 1, Fin 10)]"
  using resyncProducts_totals [of
         "[\<lparr> pm_storeId = ''S'', pm_productId = ''P1'', pm_productName = ''Mug'', pm_productImage = [],
            pm_productUrl = [], totalQuantitySold = Fin 5, totalRevenue = Fin 100, pm_lastSyncDate = 0 \<rparr>]"
         "\<lambda>k. 1" "''S''"
         "[\<lparr> productId = ''P1'', productName = ''Mug'', productImage = [], productUrl = [],
            quantitySold = Fin 2, revenue = Fin 20 \<rparr>,
          \<lparr> productId = ''P2'', productName = ''Cup'', productImage = [], productUrl = [],
            quantitySold = Fin 1, revenue = Fin 10 \<rparr>]"]
  by (simp add: resyncProducts_def resetStoreProducts_def product_key_def batchQuantity_def batchRevenue_def)

subsection \<open>Traffic metrics: reset then resync\<close>

lemma frame_upsertTrafficMetric:
  "filter (\<lambda>d. \<not> inWindow sid start d) (upsertTrafficMetric now docs (trafficInput sid start fin page)) =
   filter (\<lambda>d. \<not> inWindow sid start d) docs"
  by (induction docs) (auto simp: inWindow_def trafficInput_def)

lemma frame_upsertTraffic:
  "filter (\<lambda>d. \<not> inWindow sid start d) (upsertTraffic clock k sid start fin docs pages) =
   filter (\<lambda>d. \<not> inWindow sid start d) docs"
  by (induction pages arbitrary: docs k) (simp_all add: frame_upsertTrafficMetric)

lemma frame_resetStoreTraffic:
  "filter (\<lambda>d. \<not> inWindow sid start d) (resetStoreTraffic sid start docs) =
   filter (\<lambda>d. \<not> inWindow sid start d) docs"
  by (simp add: resetStoreTraffic_def inWindow_def)

lemma set_upsertTrafficMetric:
  "set (upsertTrafficMetric now docs (trafficInput sid start fin page)) \<subseteq>
     set docs \<union> {freshDoc sid start fin now page}"
  by (induction docs) (auto simp: trafficInput_def freshDoc_def)

lemma set_upsertTraffic:
  "set (upsertTraffic clock k sid start fin docs pages) \<subseteq>
     set docs \<union> {freshDoc sid start fin (clock (k + j)) (pages ! j) | j. j < length pages}"
proof (induction pages arbitrary: docs k)
  case Nil
  show ?case by simp
next
  case (Cons page pages)
  let ?docs = "upsertTrafficMetric (clock k) docs (trafficInput sid start fin page)"
  have "set (upsertTraffic clock k sid start fin docs (page # pages)) \<subseteq>
      set ?docs \<union> {freshDoc sid start fin (clock (Suc k + j)) (pages ! j) | j. j < length pages}"
    using Cons.IH [of "Suc k" ?docs] by simp
  also have "\<dots> \<subseteq> set docs \<union> {freshDoc sid start fin (clock k) page}
      \<union> {freshDoc sid start fin (clock (Suc k + j)) (pages ! j) | j. j < length pages}"
    using set_upsertTrafficMetric [of "clock k" docs sid start fin page] by blast
  also have "\<dots> \<subseteq> set docs \<union> {freshDoc sid start fin (clock (k + j)) ((page # pages) ! j) | j. j < length (page # pages)}"
  proof -
    have a: "freshDoc sid start fin (clock k) page \<in>
        {freshDoc sid start fin (clock (k + j)) ((page # pages) ! j) | j. j < length (page # pages)}"
      by (rule CollectI, rule exI [of _ 0]) simp
    have b: "{freshDoc sid start fin (clock (Suc k + j)) (pages ! j) | j. j < length pages} \<subseteq>
        {freshDoc sid start fin (clock (k + j)) ((page # pages) ! j) | j. j < length (page # pages)}"
    proof
      fix x assume "x \<in> {freshDoc sid start fin (clock (Suc k + j)) (pages ! j) | j. j < length pages}"
      then obtain j where "j < length pages" "x = freshDoc sid start fin (clock (Suc k + j)) (pages ! j)"
        by blast
      then show "x \<in> {freshDoc sid start fin (clock (k + j)) ((page # pages) ! j) | j. j < length (page # pages)}"
        by (intro CollectI exI [of _ "Suc j"]) simp
    qed
    from a b show ?thesis by blast
  qed
  finally show ?case .
qed

text \<open>
  Claim C6.  A traffic resync of store \<open>sid\<close> for the window starting at \<open>start\<close> leaves the
  rows whose \<open>startDate\<close> is before \<open>start\<close> (and the rows of other stores) as they were; the
  reset deletes every row of the store whose \<open>startDate\<close> is on or after \<open>start\<close>; and every
  row of the store on or after \<open>start\<close> that the resync leaves is made of one fetched page
  alone, with the new window and the time of its upsert: no field comes from a stale row.
\<close>

theorem resyncTraffic_window:
  "filter (\<lambda>d. \<not> (tr_storeId d = sid \<and> start \<le> startDate d)) (resyncTraffic clock sid start fin docs pages) =
     filter (\<lambda>d. \<not> (tr_storeId d = sid \<and> start \<le> startDate d)) docs
   \<and> (\<forall>d \<in> set (resetStoreTraffic sid start docs). \<not> (tr_storeId d = sid \<and> start \<le> startDate d))
   \<and> (\<forall>d \<in> set (resyncTraffic clock sid start fin docs pages).
         tr_storeId d = sid \<and> start \<le> startDate d \<longrightarrow>
         (\<exists>j < length pages. d = freshDoc sid start fin (clock j) (pages ! j)))"
proof -
  have a: "filter (\<lambda>d. \<not> (tr_storeId d = sid \<and> start \<le> startDate d)) (resyncTraffic clock sid start fin docs pages) =
     filter (\<lambda>d. \<not> (tr_storeId d = sid \<and> start \<le> startDate d)) docs"
    using frame_upsertTraffic [of sid start clock 0 fin "resetStoreTraffic sid start docs" pages]
      frame_resetStoreTraffic [of sid start docs]
    by (simp add: resyncTraffic_def inWindow_def)
  have b: "\<forall>d \<in> set (resetStoreTraffic sid start docs). \<not> (tr_storeId d = sid \<and> start \<le> startDate d)"
    by (simp add: resetStoreTraffic_def)
  have c: "\<exists>j < length pages. d = freshDoc sid start fin (clock j) (pages ! j)"
    if m: "d \<in> set (resyncTraffic clock sid start fin docs pages)"
      and w: "tr_storeId d = sid \<and> start \<le> startDate d" for d
  proof -
    from m set_upsertTraffic [of clock 0 sid start fin "resetStoreTraffic sid start docs" pages]
    have "d \<in> set (resetStoreTraffic sid start docs)
        \<or> d \<in> {freshDoc sid start fin (clock (0 + j)) (pages ! j) | j. j < length pages}"
      unfolding resyncTraffic_def by blast
    with b w show ?thesis by auto
  qed
  show ?thesis using a b c by (intro conjI ballI impI) auto
qed

theorem resyncTraffic_window_witness:
  "resyncTraffic (\<lambda>k. 999) ''S'' 200 300
     [\<lparr> landingPageType = ''Home'', landingPagePath = ''/'', onlineStoreVisitors = Fin 4, sessions = Fin 5,
        sessionsWithCartAdditions = Fin 1, sessionsThatReachedCheckout = 0,
        tr_storeId = ''S'', startDate = 100, endDate = 190, lastSyncDate = 191 \<rparr>,
      \<lparr> landingPageType = ''Home'', landingPagePath = ''/'', onlineStoreVisitors = Fin 7, sessions = Fin 9,
        sessionsWithCartAdditions = Fin 3, sessionsThatReachedCheckout = Fin 2,
        tr_storeId = ''S'', startDate = 200, endDate = 290, lastSyncDate = 291 \<rparr>,
      \<lparr> landingPageType = ''Home'', landingPagePath = ''/'', onlineStoreVisitors = Fin 1, sessions = Fin 1,
        sessionsWithCartAdditions = 0, sessionsThatReachedCheckout = 0,
        tr_storeId = ''T'', startDate = 250, endDate = 290, lastSyncDate = 291 \<rparr>]
     [\<lparr> landingPageType = ''Product'', landingPagePath = ''/'', onlineStoreVisitors = Fin 8, sessions = Fin 10,
        sessionsWithCartAdditions = 0, sessionsThatReachedCheckout = 0 \<rparr>]
   = [\<lparr> landingPageType = ''Home'', landingPagePath = ''/'', onlineStoreVisitors = Fin 4, sessions = Fin 5,
        sessionsWithCartAdditions = Fin 1, sessionsThatReachedCheckout = 0,
        tr_storeId = ''S'', startDate = 100, endDate = 190, lastSyncDate = 191 \<rparr>,
      \<lparr> landingPageType = ''Home'', landingPagePath = ''/'', onlineStoreVisitors = Fin 1, sessions = Fin 1,
        sessionsWithCartAdditions = 0, sessionsThatReachedCheckout = 0,
        tr_storeId = ''T'', startDate = 250, endDate = 290, lastSyncDate = 291 \<rparr>,
      \<lparr> landingPageType = ''Product'', landingPagePath = ''/'', onlineStoreVisitors = Fin 8, sessions = Fin 10,
        sessionsWithCartAdditions = 0, sessionsThatReachedCheckout = 0,
        tr_storeId = ''S'', startDate = 200, endDate = 300, lastSyncDate = 999 \<rparr>]"
  using resyncTraffic_window [of "''S''" 200 "\<lambda>k. 999" 300
     "[\<lparr> landingPageType = ''Home'', landingPagePath = ''/'', onlineStoreVisitors = Fin 4, sessions = Fin 5,
        sessionsWithCartAdditions = Fin 1, sessionsThatReachedCheckout = 0,
        tr_storeId = ''S'', startDate = 100, endDate = 190, lastSyncDate = 191 \<rparr>,
      \<lparr> landingPageType = ''Home'', landingPagePath = ''/'', onlineStoreVisitors = Fin 7, sessions = Fin 9,
        sessionsWithCartAdditions = Fin 3, sessionsThatReachedCheckout = Fin 2,
        tr_storeId = ''S'', startDate = 200, endDate = 290, lastSyncDate = 291 \<rparr>,
      \<lparr> landingPageType = ''Home'', landingPagePath = ''/'', onlineStoreVisitors = Fin 1, sessions = Fin 1,
        sessionsWithCartAdditions = 0, sessionsThatReachedCheckout = 0,
        tr_storeId = ''T'', startDate = 250, endDate = 290, lastSyncDate = 291 \<rparr>]"
     "[\<lparr> landingPageType = ''Product'', landingPagePath = ''/'', onlineStoreVisitors = Fin 8, sessions = Fin 10,
        sessionsWithCartAdditions = 0, sessionsThatReachedCheckout = 0 \<rparr>]"]
  by (simp add: resyncTraffic_def resetStoreTraffic_def trafficInput_def)

subsection \<open>Facebook client: the retry helper\<close>

declare callFacebook.simps [simp del]

lemma callFacebook_Resolved:
  "http n = Resolved d \<Longrightarrow> callFacebook http n retry = ([Get], Inr d)"
  by (subst callFacebook.simps) simp

lemma callFacebook_retrying:
  "http n = Rejected e \<Longrightarrow> code e = Some 17 \<Longrightarrow> retry < 3 \<Longrightarrow>
     callFacebook http n retry =
       (Get # Wait 2000 # fst (callFacebook http (Suc n) (retry + 1)),
        snd (callFacebook http (Suc n) (retry + 1)))"
  by (subst callFacebook.simps) (simp add: case_prod_beta)

lemma callFacebook_giving_up:
  "http n = Rejected e \<Longrightarrow> \<not> (code e = Some 17 \<and> retry < 3) \<Longrightarrow>
     callFacebook http n retry = ([Get], Inl (Error (fbErrorMessage e)))"
  by (subst callFacebook.simps) auto

text \<open>
  Claim C8.  A call of the retry helper issues the request, and repeats it only after a
  response with error code 17, each time after a wait of 2000 ms; with \<open>retry = 0\<close> it
  retries \<open>k \<le> 3\<close> times, and stops at the first response that is not rate limited or when
  the three retries are used up.  The outcome is that of the last request: its body, or a
  thrown \<open>Error\<close> for any rejected request.  The function is total: the recursion ends.
\<close>

theorem callFacebook_retry:
  "\<exists>k. k \<le> 3 - retry
     \<and> fst (callFacebook http n retry) = concat (replicate k [Get, Wait 2000]) @ [Get]
     \<and> (\<forall>j<k. rateLimited (http (n + j)))
     \<and> (k < 3 - retry \<longrightarrow> \<not> rateLimited (http (n + k)))
     \<and> snd (callFacebook http n retry) =
         (case http (n + k) of Resolved d \<Rightarrow> Inr d
          | Rejected e \<Rightarrow> Inl (Error (fbErrorMessage e)))"
proof (induction http n retry rule: callFacebook.induct)
  case (1 http n retry)
  show ?case
  proof (cases "http n")
    case (Resolved d)
    show ?thesis
      by (rule exI [of _ 0]) (simp add: callFacebook_Resolved [of http n d retry, OF Resolved] Resolved rateLimited_def)
  next
    case (Rejected e)
    show ?thesis
    proof (cases "code e = Some 17 \<and> retry < 3")
      case False
      show ?thesis
        by (rule exI [of _ 0])
           (use False in \<open>auto simp: callFacebook_giving_up [of http n e retry, OF Rejected False] Rejected rateLimited_def\<close>)
    next
      case True
      then have c: "code e = Some 17" and r: "retry < 3" by simp_all
      from "1.IH" [OF Rejected True] obtain k where
        k: "k \<le> 3 - (retry + 1)"
        and ev: "fst (callFacebook http (Suc n) (retry + 1)) = concat (replicate k [Get, Wait 2000]) @ [Get]"
        and rl: "\<forall>j<k. rateLimited (http (Suc n + j))"
        and st: "k < 3 - (retry + 1) \<longrightarrow> \<not> rateLimited (http (Suc n + k))"
        and res: "snd (callFacebook http (Suc n) (retry + 1)) =
           (case http (Suc n + k) of Resolved d \<Rightarrow> Inr d | Rejected e \<Rightarrow> Inl (Error (fbErrorMessage e)))"
        by blast
      have rl': "\<forall>j<Suc k. rateLimited (http (n + j))"
      proof (intro allI impI)
        fix j assume "j < Suc k"
        show "rateLimited (http (n + j))"
        proof (cases j)
          case 0
          then show ?thesis by (simp add: Rejected rateLimited_def c)
        next
          case (Suc j')
          with \<open>j < Suc k\<close> rl show ?thesis by simp
        qed
      qed
      show ?thesis
        by (rule exI [of _ "Suc k"])
           (use k r ev rl' st res in \<open>simp add: callFacebook_retrying [of http n e retry, OF Rejected c r]\<close>)
    qed
  qed
qed


theorem callFacebook_retry_witness:
  "callFacebook (\<lambda>n. Rejected \<lparr> code = Some 17, api_message = Some ''limit'', message = ''400'' \<rparr> :: nat axios) 0 0 =
     ([Get, Wait 2000, Get, Wait 2000, Get, Wait 2000, Get], Inl (Error ''limit''))
   \<and> callFacebook (\<lambda>n. if n = 0 then Rejected \<lparr> code = Some 17, api_message = None, message = ''400'' \<rparr>
                        else Rejected \<lparr> code = Some 190, api_message = None, message = ''401'' \<rparr> :: nat axios) 0 0 =
     ([Get, Wait 2000, Get], Inl (Error ''401''))"
  using callFacebook_retry [of 0 "\<lambda>n. Rejected \<lparr> code = Some 17, api_message = Some ''limit'', message = ''400'' \<rparr> :: nat axios" 0]
  by (simp add: callFacebook.simps fbErrorMessage_def)

subsection \<open>Facebook client: derived metrics\<close>





























subsection \<open>Shopify client: revenue attribution of product sales\<close>

text \<open>A line item without product leaves the product map as it is, a line item with a
  product adds its share to the revenue of that product only; \<open>fetchProductSales\<close> folds
  \<open>addOrder\<close> over the orders of all pages; the quantities of an order in range are summed
  without rounding; and the share of a line item, a quotient and a product of doubles, is
  within the relative error \<open>2 ^ -51\<close> of the exact share.\<close>

lemma addLineItem_None: "product item = None \<Longrightarrow> addLineItem T amt m item = m"
  by (simp add: addLineItem_def)

lemma revenueOf_addLineItem:
  assumes "product item = Some p"
  shows "revenueOf (addLineItem T amt m item) k =
           (if k = p_id p then js_add (revenueOf m k) (itemRevenue T amt item) else revenueOf m k)"
  using assms
  by (auto simp add: addLineItem_def revenueOf_def map_of_modify has_def Let_def map_add_def
        split: option.splits)

lemma productPages_pages:
  assumes "\<forall>j<k. \<exists>page. callShopify (http (n + j)) = Inr page \<and> hasNextPage page \<and> edges page \<noteq> []"
    and "\<exists>page. callShopify (http (n + k)) = Inr page \<and> \<not> hasNextPage page"
  shows "productPages http n m =
           Some (Inr (foldl addOrder m (concat (map (ordersOf http) [n..<Suc (n + k)]))))"
  using assms
proof (induction k arbitrary: n m)
  case 0
  then show ?case by (subst productPages.simps) (auto simp add: ordersOf_def)
next
  case (Suc k)
  from Suc.prems(1) obtain page where
    p: "callShopify (http n) = Inr page" "hasNextPage page" "edges page \<noteq> []"
    by force
  have "productPages http (Suc n) (foldl addOrder m (edges page)) =
      Some (Inr (foldl addOrder (foldl addOrder m (edges page))
        (concat (map (ordersOf http) [Suc n..<Suc (Suc n + k)]))))"
  proof (rule Suc.IH)
    show "\<forall>j<k. \<exists>page. callShopify (http (Suc n + j)) = Inr page \<and> hasNextPage page \<and> edges page \<noteq> []"
      using Suc.prems(1) by (metis Suc_less_eq add_Suc_shift)
    show "\<exists>page. callShopify (http (Suc n + k)) = Inr page \<and> \<not> hasNextPage page"
      using Suc.prems(2) by simp
  qed
  moreover have "[n..<Suc (n + Suc k)] = n # [Suc n..<Suc (Suc n + k)]"
    by (simp add: upt_rec)
  ultimately show ?case using p
    by (subst productPages.simps) (simp add: ordersOf_def)
qed

lemma fetchProductSales_pages:
  assumes "\<forall>j<k. \<exists>page. callShopify (http j) = Inr page \<and> hasNextPage page \<and> edges page \<noteq> []"
    and "\<exists>page. callShopify (http k) = Inr page \<and> \<not> hasNextPage page"
  shows "fetchProductSales http store =
           Some ([auditLog SHOPIFY_SYNC_STARTED PENDING store None None,
                  auditLog SHOPIFY_PRODUCTS_SYNCED SUCCESS store None None],
                 Inr (map snd (foldl addOrder [] (allOrders http k))))"
proof -
  have "productPages http 0 [] = Some (Inr (foldl addOrder [] (concat (map (ordersOf http) [0..<Suc (0 + k)]))))"
    using assms by (intro productPages_pages) simp_all
  then show ?thesis by (simp add: fetchProductSales_def allOrders_def)
qed

lemma sum_quantities:
  assumes "list_all (\<lambda>item. 0 \<le> quantity item) items" and "0 \<le> a"
    and "a + sum_list (map quantity items) \<le> 2 ^ 53"
  shows "foldl (\<lambda>sum item. js_add sum (Fin (of_int (quantity item)))) (Fin (of_int a)) items =
           Fin (of_int (a + sum_list (map quantity items)))"
  using assms
proof (induction items arbitrary: a)
  case Nil
  then show ?case by simp
next
  case (Cons item items)
  from Cons.prems have q: "0 \<le> quantity item" and r: "list_all (\<lambda>item. 0 \<le> quantity item) items"
    by simp_all
  have s: "0 \<le> sum_list (map quantity items)"
    using r by (intro sum_list_nonneg) (auto simp add: list_all_iff)
  with Cons.prems(2,3) q have "\<bar>a + quantity item\<bar> \<le> 2 ^ 53" by simp
  then have "rnd (of_int (a + quantity item)) = Fin (of_int (a + quantity item))"
    by (rule rnd_of_int)
  then have "js_add (Fin (of_int a)) (Fin (of_int (quantity item))) = Fin (of_int (a + quantity item))"
    by simp
  moreover have "foldl (\<lambda>sum item. js_add sum (Fin (of_int (quantity item)))) (Fin (of_int (a + quantity item))) items =
      Fin (of_int (a + quantity item + sum_list (map quantity items)))"
    using r Cons.prems(2,3) q by (intro Cons.IH) simp_all
  ultimately show ?case by (simp add: add.assoc)
qed

lemma totalItems_allItems:
  assumes "list_all (\<lambda>item. 0 \<le> quantity item) (lineItems order)" and "allItems order \<le> 2 ^ 53"
  shows "totalItems order = Fin (of_int (allItems order))"
  using sum_quantities [of "lineItems order" 0] assms by (simp add: totalItems_def allItems_def)


lemma share_error:
  assumes q: "0 \<le> q" "q \<le> T" and T: "1 \<le> T" "T \<le> 2 ^ 53"
    and O: "1 / 2 ^ 900 \<le> \<bar>amt\<bar>" "\<bar>amt\<bar> \<le> 2 ^ 900"
  shows "\<exists>r. js_mul (js_div (Fin (of_int q)) (Fin (of_int T))) (Fin amt) = Fin r
           \<and> \<bar>r - of_int q / of_int T * amt\<bar> \<le> of_int q / of_int T * \<bar>amt\<bar> / 2 ^ 51"
proof (cases "q = 0")
  case True
  with T(1) show ?thesis by (simp add: rnd_small)
next
  case False
  define x :: rat where "x = of_int q / of_int T"
  define y where "y = fl x"
  define z where "z = y * amt"
  have Tp: "(0::rat) < of_int T" using T(1) by simp
  have "(1::rat) \<le> of_int q" using False q(1) by simp
  moreover have "(of_int T :: rat) \<le> of_int (2 ^ 53)" using T(2) by (simp only: of_int_le_iff)
  ultimately have "1 / 2 ^ 53 \<le> x"
    unfolding x_def using Tp by (intro frac_le) simp_all
  then have lo: "2 powi (- 53) \<le> x" by (simp add: power_int_minus field_simps)
  have "(of_int q :: rat) \<le> of_int T" using q(2) by (simp only: of_int_le_iff)
  then have hi: "x \<le> 1" unfolding x_def using Tp by (simp add: pos_divide_le_eq)
  have xp: "0 < x" using two_powi_pos [of "- 53"] lo by (rule less_le_trans)
  have ax: "\<bar>x\<bar> = x" using xp by simp
  have "\<bar>x\<bar> \<le> 2 powi 0" using hi ax by simp
  then have y1: "\<bar>y\<bar> \<le> 2 powi 0" unfolding y_def by (rule fl_abs_le) simp
  have "(2::rat) powi 0 \<le> 2 powi 1023" by (rule two_powi_mono) simp
  with hi ax have "\<bar>x\<bar> \<le> 2 powi 1023" by simp
  then have rx: "rnd x = Fin y" unfolding y_def by (rule rnd_Fin)
  have ylo: "2 powi (- 53) \<le> y" unfolding y_def using lo by (rule fl_ge) simp
  have "(2::rat) powi (- 1022) \<le> 2 powi (- 53)" by (rule two_powi_mono) simp
  with lo ax have "2 powi (- 1022) \<le> \<bar>x\<bar>" by simp
  then have ex: "\<bar>y - x\<bar> \<le> x / 2 ^ 53"
    unfolding y_def using fl_rel [of x] ax by simp
  have yp: "0 < y" using two_powi_pos [of "- 53"] ylo by (rule less_le_trans)
  have az: "\<bar>z\<bar> = y * \<bar>amt\<bar>" using yp by (simp add: z_def abs_mult)
  have "y * \<bar>amt\<bar> \<le> 1 * 2 ^ 900" using y1 yp O(2) by (intro mult_mono) simp_all
  then have "\<bar>z\<bar> \<le> 2 powi 900" by (simp add: az)
  moreover have "(2::rat) powi 900 \<le> 2 powi 1023" by (rule two_powi_mono) simp
  ultimately have "\<bar>z\<bar> \<le> 2 powi 1023" by simp
  then have rz: "rnd z = Fin (fl z)" by (rule rnd_Fin)
  have "2 powi (- 53) * 2 powi (- 900) \<le> y * \<bar>amt\<bar>"
    using ylo O(1) by (intro mult_mono) (simp_all add: power_int_minus field_simps)
  then have "2 powi (- 953) \<le> \<bar>z\<bar>" by (simp add: az two_powi_add [symmetric])
  moreover have "(2::rat) powi (- 1022) \<le> 2 powi (- 953)" by (rule two_powi_mono) simp
  ultimately have "2 powi (- 1022) \<le> \<bar>z\<bar>" by simp
  then have ez: "\<bar>fl z - z\<bar> \<le> y * \<bar>amt\<bar> / 2 ^ 53"
    using fl_rel [of z] by (simp add: az)
  define A where "A = x * \<bar>amt\<bar>"
  have A0: "0 \<le> A" using xp by (simp add: A_def)
  have "y \<le> x + x / 2 ^ 53" using ex by linarith
  then have "y * \<bar>amt\<bar> \<le> (x + x / 2 ^ 53) * \<bar>amt\<bar>" by (intro mult_right_mono) simp_all
  then have yA: "y * \<bar>amt\<bar> \<le> A + A / 2 ^ 53" by (simp add: A_def algebra_simps)
  have "\<bar>z - x * amt\<bar> = \<bar>y - x\<bar> * \<bar>amt\<bar>"
    by (simp add: z_def abs_mult [symmetric] algebra_simps)
  also have "\<dots> \<le> x / 2 ^ 53 * \<bar>amt\<bar>" using ex by (intro mult_right_mono) simp_all
  finally have zx: "\<bar>z - x * amt\<bar> \<le> A / 2 ^ 53" by (simp add: A_def)
  have "\<bar>fl z - x * amt\<bar> \<le> \<bar>fl z - z\<bar> + \<bar>z - x * amt\<bar>" by simp
  also have "\<dots> \<le> (A + A / 2 ^ 53) / 2 ^ 53 + A / 2 ^ 53"
    using ez yA zx by (intro add_mono) (simp_all add: divide_right_mono)
  also have "\<dots> \<le> A / 2 ^ 51" using A0 by simp
  finally have "\<bar>fl z - x * amt\<bar> \<le> x * \<bar>amt\<bar> / 2 ^ 51" by (simp add: A_def)
  moreover have "js_mul (js_div (Fin (of_int q)) (Fin (of_int T))) (Fin amt) = Fin (fl z)"
    using Tp rx rz by (simp add: x_def [symmetric] z_def [symmetric])
  ultimately show ?thesis by (simp add: x_def)
qed


lemma quantity_le_sum:
  assumes "list_all (\<lambda>item. 0 \<le> quantity item) items" and "item \<in> set items"
  shows "quantity item \<le> sum_list (map quantity items)"
  using assms
proof (induction items)
  case Nil
  then show ?case by simp
next
  case (Cons a items)
  from Cons.prems(1) have "0 \<le> sum_list (map quantity items)"
    by (intro sum_list_nonneg) (auto simp add: list_all_iff)
  with Cons show ?case by auto
qed

lemma sum_share_error:
  assumes "\<forall>item\<in>set items. 0 \<le> quantity item \<and> quantity item \<le> T"
    and T: "1 \<le> T" "T \<le> 2 ^ 53"
    and O: "1 / 2 ^ 900 \<le> \<bar>amt\<bar>" "\<bar>amt\<bar> \<le> 2 ^ 900"
  shows "\<bar>sum_list (map (\<lambda>item. finval (itemRevenue (Fin (of_int T)) (Fin amt) item)) items)
            - of_int (sum_list (map quantity items)) / of_int T * amt\<bar>
           \<le> of_int (sum_list (map quantity items)) / of_int T * \<bar>amt\<bar> / 2 ^ 51"
  using assms(1)
proof (induction items)
  case Nil
  then show ?case by simp
next
  case (Cons item items)
  let ?f = "\<lambda>item. finval (itemRevenue (Fin (of_int T)) (Fin amt) item)"
  define R where "R = sum_list (map ?f items)"
  define Q :: rat where "Q = of_int (sum_list (map quantity items))"
  define q :: rat where "q = of_int (quantity item)"
  from Cons.prems have "0 \<le> quantity item" and "quantity item \<le> T" by simp_all
  then obtain r where r: "itemRevenue (Fin (of_int T)) (Fin amt) item = Fin r"
    and e: "\<bar>r - q / of_int T * amt\<bar> \<le> q / of_int T * \<bar>amt\<bar> / 2 ^ 51"
    using share_error [OF _ _ T O, of "quantity item"] unfolding itemRevenue_def q_def by blast
  have "\<bar>R - Q / of_int T * amt\<bar> \<le> Q / of_int T * \<bar>amt\<bar> / 2 ^ 51"
    unfolding R_def Q_def using Cons.prems by (intro Cons.IH) simp
  with e have "\<bar>(r + R) - (q / of_int T * amt + Q / of_int T * amt)\<bar>
      \<le> q / of_int T * \<bar>amt\<bar> / 2 ^ 51 + Q / of_int T * \<bar>amt\<bar> / 2 ^ 51"
    by linarith
  also have "q / of_int T * amt + Q / of_int T * amt = (q + Q) / of_int T * amt"
    by (simp add: add_divide_distrib distrib_right)
  also have "q / of_int T * \<bar>amt\<bar> / 2 ^ 51 + Q / of_int T * \<bar>amt\<bar> / 2 ^ 51 = (q + Q) / of_int T * \<bar>amt\<bar> / 2 ^ 51"
    by (simp add: add_divide_distrib distrib_right)
  finally show ?case by (simp add: r R_def Q_def q_def)
qed

lemma attributed_error:
  assumes "orderInRange order"
  shows "\<bar>attributed order - of_int (productItems order) / of_int (allItems order) * amount order\<bar>
           \<le> of_int (productItems order) / of_int (allItems order) * \<bar>amount order\<bar> / 2 ^ 51"
proof -
  from assms have n: "list_all (\<lambda>item. 0 \<le> quantity item) (lineItems order)"
    and T: "1 \<le> allItems order" "allItems order \<le> 2 ^ 53"
    and O: "1 / 2 ^ 900 \<le> \<bar>amount order\<bar>" "\<bar>amount order\<bar> \<le> 2 ^ 900"
    by (simp_all add: orderInRange_def)
  have t: "totalItems order = Fin (of_int (allItems order))"
    using n T(2) by (rule totalItems_allItems)
  have "\<forall>item\<in>set (filter (\<lambda>item. product item \<noteq> None) (lineItems order)).
      0 \<le> quantity item \<and> quantity item \<le> allItems order"
    using n quantity_le_sum [OF n] by (auto simp add: list_all_iff allItems_def)
  from sum_share_error [OF this T O] show ?thesis
    by (simp add: attributed_def productItems_def t)
qed

lemma attributed_all:
  assumes "orderInRange order" and "list_all (\<lambda>item. product item \<noteq> None) (lineItems order)"
  shows "\<bar>attributed order - amount order\<bar> \<le> \<bar>amount order\<bar> / 2 ^ 51"
proof -
  from assms(2) have "filter (\<lambda>item. product item \<noteq> None) (lineItems order) = lineItems order"
    by (simp add: list_all_iff)
  then have "productItems order = allItems order" by (simp add: productItems_def allItems_def)
  moreover from assms(1) have "allItems order \<noteq> 0" by (simp add: orderInRange_def)
  ultimately show ?thesis using attributed_error [OF assms(1)] by simp
qed

lemma third_div: "js_div (Fin 1) (Fin 3) = Fin (6004799503160661 / 18014398509481984)"
  by code_simp

lemma third_mul:
  "js_mul (Fin (6004799503160661 / 18014398509481984)) (Fin 100) = Fin (2345624805922133 / 70368744177664)"
  by code_simp

lemma third_add: "rnd (2345624805922133 / 70368744177664) = Fin (2345624805922133 / 70368744177664)"
  by code_simp

lemma rnd_counts: "rnd 2 = Fin 2" "rnd 3 = Fin 3" "rnd 4 = Fin 4" "rnd 25 = Fin 25"
  using rnd_of_int [of 2] rnd_of_int [of 3] rnd_of_int [of 4] rnd_of_int [of 25] by simp_all

lemma quarter: "js_mul (js_div (Fin 1) (Fin 4)) (Fin 100) = Fin 25"
  by code_simp

lemma thirds_total: "totalItems thirdsOrder = Fin 3"
  by (simp add: totalItems_def thirdsOrder_def rnd_small rnd_counts)

lemma gone_total: "totalItems goneOrder = Fin 4"
  by (simp add: totalItems_def goneOrder_def rnd_small rnd_counts)

lemma thirds_inRange: "orderInRange thirdsOrder"
  by (simp add: orderInRange_def thirdsOrder_def allItems_def)

lemma gone_inRange: "orderInRange goneOrder"
  by (simp add: orderInRange_def goneOrder_def allItems_def)

lemma thirds_pages:
  "(\<forall>j<0. \<exists>page. callShopify (thirdsApi j) = Inr page \<and> hasNextPage page \<and> edges page \<noteq> [])
   \<and> (\<exists>page. callShopify (thirdsApi 0) = Inr page \<and> \<not> hasNextPage page)"
  by (simp add: callShopify_def thirdsApi_def)

lemma thirds_orders: "allOrders thirdsApi 0 = [thirdsOrder]"
  by (simp add: allOrders_def ordersOf_def callShopify_def thirdsApi_def)

lemma thirds_sales:
  "map snd (addOrder [] thirdsOrder) =
     map (\<lambda>p. \<lparr> productId = p_id p, productName = title p, productImage = [], productUrl = [],
                quantitySold = Fin 1, revenue = Fin (2345624805922133 / 70368744177664) \<rparr>)
       [tee, mug, cap]"
  by (simp add: addOrder_def thirds_total)
     (simp add: thirdsOrder_def addLineItem_def itemRevenue_def has_def Let_def orEmpty_def
        tee_def mug_def cap_def third_div third_mul third_add rnd_small
        del: js_div.simps js_mul.simps)

text \<open>
  Claim C10, amended.  \<open>fetchProductSales\<close> processes every order of every page with
  \<open>addOrder\<close>, which runs \<open>addLineItem\<close> over the line items of the order.  A line item whose
  product is null is skipped, while its quantity counts toward \<open>totalItems\<close>.  A line item
  with a product adds the double \<open>(quantity / totalItems) * orderTotal\<close> to the revenue of its
  product, by an addition of doubles, and to no other product.  For an order in range
  (quantities not negative with a sum between 1 and \<open>2 ^ 53\<close>, a total price between
  \<open>2 ^ -900\<close> and \<open>2 ^ 900\<close> in magnitude) \<open>totalItems\<close> is the exact sum of the quantities, and
  the amounts that the line items add sum to the share
  \<open>productItems / allItems * orderTotal\<close> of the order total up to the relative error
  \<open>2 ^ -51\<close>: to the order total up to that error when every line item has a product,
  and not exactly.
\<close>

theorem addOrder_attribution:
  "(product item = None \<longrightarrow> addLineItem T amt m item = m)
   \<and> (\<forall>p. product item = Some p \<longrightarrow>
          revenueOf (addLineItem T amt m item) (p_id p) =
            js_add (revenueOf m (p_id p)) (itemRevenue T amt item)
        \<and> (\<forall>k. k \<noteq> p_id p \<longrightarrow> revenueOf (addLineItem T amt m item) k = revenueOf m k))
   \<and> addOrder m order = foldl (addLineItem (totalItems order) (Fin (amount order))) m (lineItems order)
   \<and> (orderInRange order \<longrightarrow>
          totalItems order = Fin (of_int (allItems order))
        \<and> \<bar>attributed order - of_int (productItems order) / of_int (allItems order) * amount order\<bar>
            \<le> of_int (productItems order) / of_int (allItems order) * \<bar>amount order\<bar> / 2 ^ 51)
   \<and> (orderInRange order \<and> list_all (\<lambda>item. product item \<noteq> None) (lineItems order) \<longrightarrow>
          \<bar>attributed order - amount order\<bar> \<le> \<bar>amount order\<bar> / 2 ^ 51)
   \<and> ((\<forall>j<k. \<exists>page. callShopify (http j) = Inr page \<and> hasNextPage page \<and> edges page \<noteq> [])
        \<and> (\<exists>page. callShopify (http k) = Inr page \<and> \<not> hasNextPage page) \<longrightarrow>
          fetchProductSales http store =
            Some ([auditLog SHOPIFY_SYNC_STARTED PENDING store None None,
                   auditLog SHOPIFY_PRODUCTS_SYNCED SUCCESS store None None],
                  Inr (map snd (foldl addOrder [] (allOrders http k)))))"
proof (intro conjI impI allI)
  show "addLineItem T amt m item = m" if "product item = None"
    using that by (rule addLineItem_None)
  show "revenueOf (addLineItem T amt m item) (p_id p) =
      js_add (revenueOf m (p_id p)) (itemRevenue T amt item)"
    if "product item = Some p" for p
    using that by (simp add: revenueOf_addLineItem)
  show "revenueOf (addLineItem T amt m item) k = revenueOf m k"
    if "product item = Some p" and "k \<noteq> p_id p" for p k
    using that by (simp add: revenueOf_addLineItem)
  show "addOrder m order = foldl (addLineItem (totalItems order) (Fin (amount order))) m (lineItems order)"
    by (simp add: addOrder_def)
  show "totalItems order = Fin (of_int (allItems order))" if "orderInRange order"
    using that by (intro totalItems_allItems) (simp_all add: orderInRange_def)
  show "\<bar>attributed order - of_int (productItems order) / of_int (allItems order) * amount order\<bar>
      \<le> of_int (productItems order) / of_int (allItems order) * \<bar>amount order\<bar> / 2 ^ 51"
    if "orderInRange order"
    using that by (rule attributed_error)
  show "\<bar>attributed order - amount order\<bar> \<le> \<bar>amount order\<bar> / 2 ^ 51"
    if "orderInRange order \<and> list_all (\<lambda>item. product item \<noteq> None) (lineItems order)"
    using that by (intro attributed_all) simp_all
  show "fetchProductSales http store =
      Some ([auditLog SHOPIFY_SYNC_STARTED PENDING store None None,
             auditLog SHOPIFY_PRODUCTS_SYNCED SUCCESS store None None],
            Inr (map snd (foldl addOrder [] (allOrders http k))))"
    if "(\<forall>j<k. \<exists>page. callShopify (http j) = Inr page \<and> hasNextPage page \<and> edges page \<noteq> [])
        \<and> (\<exists>page. callShopify (http k) = Inr page \<and> \<not> hasNextPage page)"
    using that by (intro fetchProductSales_pages) simp_all
qed

text \<open>The claim as stated fails: for an order of 100 with one item of each of three
  products, \<open>fetchProductSales\<close> attributes 33.33333333333333 to each product, which sums
  to 99.99999999999999 (the double \<open>7036874417766399 / 2 ^ 46\<close>) and not to 100.\<close>

theorem fetchProductSales_not_exact:
  "list_all (\<lambda>item. product item \<noteq> None) (lineItems thirdsOrder)
   \<and> totalItems thirdsOrder = Fin 3
   \<and> map_option snd (fetchProductSales thirdsApi demoStore) =
       Some (Inr (map (\<lambda>p. \<lparr> productId = p_id p, productName = title p, productImage = [],
                              productUrl = [], quantitySold = Fin 1,
                              revenue = Fin (2345624805922133 / 70368744177664) \<rparr>)
                    [tee, mug, cap]))
   \<and> attributed thirdsOrder = 7036874417766399 / 70368744177664
   \<and> attributed thirdsOrder \<noteq> amount thirdsOrder"
proof -
  have "fetchProductSales thirdsApi demoStore =
      Some ([auditLog SHOPIFY_SYNC_STARTED PENDING demoStore None None,
             auditLog SHOPIFY_PRODUCTS_SYNCED SUCCESS demoStore None None],
            Inr (map snd (foldl addOrder [] (allOrders thirdsApi 0))))"
    using thirds_pages by (intro fetchProductSales_pages) simp_all
  then have "map_option snd (fetchProductSales thirdsApi demoStore) =
      Some (Inr (map snd (addOrder [] thirdsOrder)))"
    by (simp add: thirds_orders)
  moreover have "attributed thirdsOrder = 7036874417766399 / 70368744177664"
    by (simp add: attributed_def thirds_total)
       (simp add: thirdsOrder_def itemRevenue_def third_div third_mul del: js_div.simps js_mul.simps)
  ultimately show ?thesis
    by (simp add: thirds_sales thirds_total) (simp add: thirdsOrder_def)
qed

theorem addOrder_attribution_witness:
  "addLineItem (Fin 4) (Fin 100) [] \<lparr> quantity = 3, product = None \<rparr> = []
   \<and> revenueOf (addLineItem (Fin 4) (Fin 100) [] \<lparr> quantity = 1, product = Some tee \<rparr>) (p_id tee) = Fin 25
   \<and> revenueOf (addLineItem (Fin 4) (Fin 100) [] \<lparr> quantity = 1, product = Some tee \<rparr>) (p_id mug) = Fin 0
   \<and> orderInRange goneOrder
   \<and> totalItems goneOrder = Fin 4
   \<and> \<bar>attributed goneOrder - 25\<bar> \<le> 25 / 2 ^ 51
   \<and> orderInRange thirdsOrder
   \<and> \<bar>attributed thirdsOrder - 100\<bar> \<le> 100 / 2 ^ 51
   \<and> map_option snd (fetchProductSales thirdsApi demoStore) = Some (Inr (map snd (addOrder [] thirdsOrder)))"
proof -
  note t = addOrder_attribution
  have a: "addLineItem (Fin 4) (Fin 100) [] \<lparr> quantity = 3, product = None \<rparr> = []"
    using t [where item = "\<lparr> quantity = 3, product = None \<rparr>" and T = "Fin 4" and amt = "Fin 100" and m = "[]"]
    by simp
  have "revenueOf (addLineItem (Fin 4) (Fin 100) [] \<lparr> quantity = 1, product = Some tee \<rparr>) (p_id tee) =
        js_add (revenueOf [] (p_id tee)) (itemRevenue (Fin 4) (Fin 100) \<lparr> quantity = 1, product = Some tee \<rparr>)
      \<and> revenueOf (addLineItem (Fin 4) (Fin 100) [] \<lparr> quantity = 1, product = Some tee \<rparr>) (p_id mug) =
        revenueOf [] (p_id mug)"
    using t [where item = "\<lparr> quantity = 1, product = Some tee \<rparr>" and T = "Fin 4" and amt = "Fin 100" and m = "[]"]
    by (simp add: tee_def mug_def)
  then have b: "revenueOf (addLineItem (Fin 4) (Fin 100) [] \<lparr> quantity = 1, product = Some tee \<rparr>) (p_id tee) = Fin 25"
    "revenueOf (addLineItem (Fin 4) (Fin 100) [] \<lparr> quantity = 1, product = Some tee \<rparr>) (p_id mug) = Fin 0"
    by (simp_all add: revenueOf_def itemRevenue_def quarter rnd_counts del: js_div.simps js_mul.simps)
  have "totalItems goneOrder = Fin (of_int (allItems goneOrder))
      \<and> \<bar>attributed goneOrder - of_int (productItems goneOrder) / of_int (allItems goneOrder) * amount goneOrder\<bar>
          \<le> of_int (productItems goneOrder) / of_int (allItems goneOrder) * \<bar>amount goneOrder\<bar> / 2 ^ 51"
    using t [where order = goneOrder] gone_inRange by blast
  then have c: "totalItems goneOrder = Fin 4" "\<bar>attributed goneOrder - 25\<bar> \<le> 25 / 2 ^ 51"
    by (simp_all add: allItems_def productItems_def goneOrder_def)
  have "list_all (\<lambda>item. product item \<noteq> None) (lineItems thirdsOrder)"
    by (simp add: thirdsOrder_def)
  with t [where order = thirdsOrder] thirds_inRange
  have "\<bar>attributed thirdsOrder - amount thirdsOrder\<bar> \<le> \<bar>amount thirdsOrder\<bar> / 2 ^ 51"
    by blast
  then have d: "\<bar>attributed thirdsOrder - 100\<bar> \<le> 100 / 2 ^ 51"
    by (simp add: thirdsOrder_def)
  have "fetchProductSales thirdsApi demoStore =
      Some ([auditLog SHOPIFY_SYNC_STARTED PENDING demoStore None None,
             auditLog SHOPIFY_PRODUCTS_SYNCED SUCCESS demoStore None None],
            Inr (map snd (foldl addOrder [] (allOrders thirdsApi 0))))"
    using t [where http = thirdsApi and k = 0 and store = demoStore] thirds_pages by blast
  then have e: "map_option snd (fetchProductSales thirdsApi demoStore) =
      Some (Inr (map snd (addOrder [] thirdsOrder)))"
    by (simp add: thirds_orders)
  from a b c d e gone_inRange thirds_inRange show ?thesis by simp
qed

subsection \<open>Vendor failures and the orchestrator\<close>



declare ordersDays.simps [simp del]



lemma fetchOrders_audited:
  "fetchOrders api fmt store from to = Some (a, Inl e) \<Longrightarrow>
     a = [auditLog SHOPIFY_SYNC_STARTED PENDING store None None,
          auditLog SHOPIFY_SYNC_FAILED FAILURE store (Some (exn_message e)) None]"
  by (auto simp: fetchOrders_def split: option.splits sum.splits)












lemma demo_ordersDays:
  "s_id store \<noteq> ''F'' \<Longrightarrow>
   ordersDays (shopifyApi demoEnv store) (isoDate demoEnv) 1730419200000 1730419200000 =
     Some (Inr [\<lparr> os_date = ''2024-11-01'', soldOrders = Fin 1, orderValue = Fin 500, soldItems = Fin 20 \<rparr>])"
  by (simp add: ordersDays.simps ordersPages.simps callShopify_def demoEnv_def
        countOrder_def zero_jsnum_def rnd_small)


lemma demo_Facebook:
  "fbAccountId store \<noteq> None \<Longrightarrow>
   FacebookService_fetchAdSpend (facebookApi demoEnv store) store =
     ([auditLog FACEBOOK_SYNC_STARTED PENDING store None None,
       auditLog FACEBOOK_AD_SPEND_FETCHED SUCCESS store None None],
      Inr [\<lparr> as_date = ''2024-11-01'', spend = Fin 50 \<rparr>])"
  by (auto simp: FacebookService_fetchAdSpend_def demoEnv_def callFacebook.simps)


lemma demo_upserted:
  "upserted (newDate demoEnv) sid
     [\<lparr> os_date = ''2024-11-01'', soldOrders = Fin 1, orderValue = Fin 500, soldItems = Fin 20 \<rparr>]
     [\<lparr> as_date = ''2024-11-01'', spend = Fin 50 \<rparr>] [] =
   [\<lparr> storeId = sid, date = 1730419200000, facebookMetaSpend = Fin 50, googleAdSpend = 0,
      shopifySoldOrders = Fin 1, shopifyOrderValue = Fin 500, shopifySoldItems = Fin 20 \<rparr>]"
  by (simp add: upserted_def mergeByDate_def processShopify_def processFacebook_def
        getOrCreateEntry_def has_def newEntry_def demoEnv_def)




subsection \<open>Absent credentials\<close>

lemma Google_absent: "\<not> truthy (googleCustomerId store) \<Longrightarrow>
    GoogleService_fetchAdSpend now refresh post store = ([], Inr [])"
  by (simp add: GoogleService_fetchAdSpend_def)

lemma syncStore_without_Google:
  assumes g: "\<not> truthy (googleCustomerId store)"
    and s: "fetchOrders (shopifyApi env store) (isoDate env) store y y = Some (a1, Inr shopifyData)"
    and f: "FacebookService_fetchAdSpend (facebookApi env store) store = (a2, Inr fbData)"
  shows "syncStore env y st store =
     Some (st\<lparr> audit := audit st @ a1 @ a2, calls := calls st @ called store,
               metrics := foldl createOrUpdate (metrics st)
                            (upserted (newDate env) (s_id store) shopifyData fbData []) \<rparr>)"
  by (simp add: syncStore_def fetchAll_def s f Google_absent [OF g])

text \<open>
  Claim C5, amended.  For a store without Google Ads customer id,
  \<open>GoogleService.fetchAdSpend\<close> returns the empty list without raising (and without an
  audit entry), so that when the Shopify and the Facebook client return their rows, the
  orchestrator upserts the merge of these rows with no Google spend.  (The Facebook client
  has no such path: the schema makes the Facebook credentials required.)
\<close>

theorem google_absent_soft:
  "(\<not> truthy (googleCustomerId store) \<longrightarrow>
      GoogleService_fetchAdSpend now refresh post store = ([], Inr []))
   \<and> (\<not> truthy (googleCustomerId store)
        \<and> fetchOrders (shopifyApi env store) (isoDate env) store y y = Some (a1, Inr shopifyData)
        \<and> FacebookService_fetchAdSpend (facebookApi env store) store = (a2, Inr fbData) \<longrightarrow>
      syncStore env y st store =
        Some (st\<lparr> audit := audit st @ a1 @ a2, calls := calls st @ called store,
                  metrics := foldl createOrUpdate (metrics st)
                               (upserted (newDate env) (s_id store) shopifyData fbData []) \<rparr>))"
  using Google_absent [of store now refresh post]
    syncStore_without_Google [of store env y a1 shopifyData a2 fbData st]
  by blast

text \<open>
  Claim C5, as stated, fails for Facebook: for a store document without ad-account id,
  \<open>FacebookService.fetchAdSpend\<close> audits a failure and raises a \<open>TypeError\<close>, and the
  orchestrator skips the store: nothing of it is upserted.
\<close>

theorem facebook_absent_raises:
  "fbAccountId (demoStore\<lparr> fbAccountId := None \<rparr>) = None
   \<and> FacebookService_fetchAdSpend (facebookApi demoEnv (demoStore\<lparr> fbAccountId := None \<rparr>))
         (demoStore\<lparr> fbAccountId := None \<rparr>) =
       ([auditLog FACEBOOK_SYNC_STARTED PENDING (demoStore\<lparr> fbAccountId := None \<rparr>) None None,
         auditLog FACEBOOK_SYNC_FAILED FAILURE (demoStore\<lparr> fbAccountId := None \<rparr>)
           (Some ''Cannot read properties of undefined (reading 'startsWith')'') None],
        Inl (TypeError ''Cannot read properties of undefined (reading 'startsWith')''))
   \<and> map_option (\<lambda>st. (metrics st, errorLog st))
        (syncStore demoEnv 1730419200000 emptyState (demoStore\<lparr> fbAccountId := None \<rparr>)) =
       Some ([], [''Cannot read properties of undefined (reading 'startsWith')''])"
  by (simp add: FacebookService_fetchAdSpend_def syncStore_def fetchAll_def fetchOrders_def
        demo_ordersDays demoStore_def emptyState_def case_prod_beta)

theorem google_absent_soft_witness:
  "\<not> truthy (googleCustomerId (demoStore\<lparr> googleCustomerId := None \<rparr>))
   \<and> map_option (\<lambda>st. (metrics st, errorLog st, filter (\<lambda>a. platform a = Some ''google_ads'') (audit st)))
       (syncStore demoEnv 1730419200000 emptyState (demoStore\<lparr> googleCustomerId := None \<rparr>)) =
     Some ([\<lparr> storeId = ''S'', date = 1730419200000, facebookMetaSpend = Fin 50, googleAdSpend = 0,
              shopifySoldOrders = Fin 1, shopifyOrderValue = Fin 500, shopifySoldItems = Fin 20 \<rparr>],
           [], [])"
proof -
  let ?s = "demoStore\<lparr> googleCustomerId := None \<rparr>"
  have g: "\<not> truthy (googleCustomerId ?s)" by (simp add: truthy_def)
  have i: "s_id ?s \<noteq> ''F''" and a: "fbAccountId ?s \<noteq> None" and n: "s_id ?s = ''S''"
    by (simp_all add: demoStore_def)
  have s: "fetchOrders (shopifyApi demoEnv ?s) (isoDate demoEnv) ?s 1730419200000 1730419200000 =
      Some ([auditLog SHOPIFY_SYNC_STARTED PENDING ?s None None,
             auditLog SHOPIFY_ORDERS_FETCHED SUCCESS ?s None None],
            Inr [\<lparr> os_date = ''2024-11-01'', soldOrders = Fin 1, orderValue = Fin 500, soldItems = Fin 20 \<rparr>])"
    by (simp add: fetchOrders_def demo_ordersDays [OF i])
  note f = demo_Facebook [OF a]
  from google_absent_soft [where store = ?s and env = demoEnv and y = 1730419200000
      and st = emptyState, THEN conjunct2, rule_format, OF conjI [OF g conjI [OF s f]]]
  show ?thesis
    by (simp add: truthy_def demo_upserted n emptyState_def auditLog_def)
qed

subsection \<open>Backfill: validation of the range\<close>

text \<open>
  Claim C7, amended.  For a backfill request that names an existing store, a start or end
  date that does not parse, or a start after the end, makes \<open>rangeSync\<close> return the error
  object with status 400 and leave the state as it was: no vendor client is called, no audit
  entry is written, nothing is upserted; and an error object is returned for no other
  reason.  For an unknown store the lookup raises \<open>NotFoundException\<close> first, again with
  the state unchanged.
\<close>

theorem rangeSync_rejects_invalid:
  "(findOne stores ident = Inl e \<longrightarrow> rangeSync env stores st ident sd ed = Some (Inl e, st))
   \<and> (findOne stores ident = Inr store
        \<and> (parseDate env sd = None \<or> parseDate env ed = None) \<longrightarrow>
        rangeSync env stores st ident sd ed =
          Some (Inr (ErrorObject ''Invalid date format. Use YYYY-MM-DD'' 400), st))
   \<and> (findOne stores ident = Inr store
        \<and> parseDate env sd = Some from \<and> parseDate env ed = Some to \<and> from > to \<longrightarrow>
        rangeSync env stores st ident sd ed =
          Some (Inr (ErrorObject ''startDate must be before endDate'' 400), st))
   \<and> (rangeSync env stores st ident sd ed = Some (Inr (ErrorObject msg c), st') \<longrightarrow>
        c = 400 \<and> st' = st
        \<and> (parseDate env sd = None \<or> parseDate env ed = None
            \<or> the (parseDate env sd) > the (parseDate env ed)))"
proof (intro conjI impI)
  show "rangeSync env stores st ident sd ed = Some (Inl e, st)" if "findOne stores ident = Inl e"
    using that by (simp add: rangeSync_def)
  show "rangeSync env stores st ident sd ed =
          Some (Inr (ErrorObject ''Invalid date format. Use YYYY-MM-DD'' 400), st)"
    if "findOne stores ident = Inr store \<and> (parseDate env sd = None \<or> parseDate env ed = None)"
    using that by (auto simp: rangeSync_def split: option.splits)
  show "rangeSync env stores st ident sd ed =
          Some (Inr (ErrorObject ''startDate must be before endDate'' 400), st)"
    if "findOne stores ident = Inr store
        \<and> parseDate env sd = Some from \<and> parseDate env ed = Some to \<and> from > to"
    using that by (simp add: rangeSync_def)
  assume r: "rangeSync env stores st ident sd ed = Some (Inr (ErrorObject msg c), st')"
  have "c = 400 \<and> st' = st
      \<and> (parseDate env sd = None \<or> parseDate env ed = None
          \<or> the (parseDate env sd) > the (parseDate env ed))"
  proof (cases "findOne stores ident")
    case (Inl e)
    with r show ?thesis by (simp add: rangeSync_def)
  next
    case (Inr store)
    show ?thesis
    proof (cases "parseDate env sd")
      case None
      with r Inr show ?thesis by (simp add: rangeSync_def)
    next
      case (Some f)
      note sd = this
      show ?thesis
      proof (cases "parseDate env ed")
        case None
        with r Inr sd show ?thesis by (simp add: rangeSync_def)
      next
        case (Some t)
        note ed = this
        show ?thesis
        proof (cases "f > t")
          case True
          with r Inr sd ed show ?thesis by (simp add: rangeSync_def)
        next
          case False
          show ?thesis
          proof (cases "fetchAll env store f t")
            case None
            with r Inr sd ed False show ?thesis by (simp add: rangeSync_def)
          next
            case (Some p)
            obtain entries outcome where p: "p = (entries, outcome)" by (cases p)
            show ?thesis
            proof (cases outcome)
              case (Inl e)
              with r Inr sd ed False Some p show ?thesis by (simp add: rangeSync_def)
            next
              case (Inr rows)
              obtain a b d where "rows = (a, b, d)" by (cases rows)
              with r \<open>findOne stores ident = Inr store\<close> sd ed False Some p Inr show ?thesis
                by (simp add: rangeSync_def Let_def)
            qed
          qed
        qed
      qed
    qed
  qed
  then show "c = 400" and "st' = st"
    and "parseDate env sd = None \<or> parseDate env ed = None
            \<or> the (parseDate env sd) > the (parseDate env ed)"
    by simp_all
qed

text \<open>
  Claim C7, as stated, fails for a request that names no existing store: with the inverted
  range of the spec's example the response is the thrown \<open>NotFoundException\<close>, not the
  error object with status 400.
\<close>

theorem rangeSync_unknown_store:
  "parseDate demoEnv ''2025-02-01'' = Some 1738368000000
   \<and> parseDate demoEnv ''2025-01-01'' = Some 1735689600000
   \<and> rangeSync demoEnv [] emptyState ''S'' ''2025-02-01'' ''2025-01-01'' =
       Some (Inl (NotFoundException ''Store not found''), emptyState)"
  by (simp add: rangeSync_def findOne_def demoEnv_def)

theorem rangeSync_rejects_invalid_witness:
  "findOne [demoStore] ''S'' = Inr demoStore
   \<and> rangeSync demoEnv [demoStore] emptyState ''S'' ''2025-02-01'' ''2025-01-01'' =
       Some (Inr (ErrorObject ''startDate must be before endDate'' 400), emptyState)
   \<and> rangeSync demoEnv [demoStore] emptyState ''S'' ''2025-13-01'' ''2025-01-01'' =
       Some (Inr (ErrorObject ''Invalid date format. Use YYYY-MM-DD'' 400), emptyState)"
proof -
  have f: "findOne [demoStore] ''S'' = Inr demoStore"
    by (simp add: findOne_def demoStore_def)
  have a: "parseDate demoEnv ''2025-02-01'' = Some 1738368000000"
    and b: "parseDate demoEnv ''2025-01-01'' = Some 1735689600000"
    and c: "parseDate demoEnv ''2025-13-01'' = None"
    by (simp_all add: demoEnv_def)
  have o: "(1738368000000 :: int) > 1735689600000" by simp
  have x: "rangeSync demoEnv [demoStore] emptyState ''S'' ''2025-02-01'' ''2025-01-01'' =
       Some (Inr (ErrorObject ''startDate must be before endDate'' 400), emptyState)"
    by (rule rangeSync_rejects_invalid [where stores = "[demoStore]" and ident = "''S''"
          and env = demoEnv and st = emptyState and sd = "''2025-02-01''" and ed = "''2025-01-01''"
          and store = demoStore and ?from = 1738368000000 and to = 1735689600000,
          THEN conjunct2, THEN conjunct2, THEN conjunct1, rule_format])
       (intro conjI f a b o)
  have y: "rangeSync demoEnv [demoStore] emptyState ''S'' ''2025-13-01'' ''2025-01-01'' =
       Some (Inr (ErrorObject ''Invalid date format. Use YYYY-MM-DD'' 400), emptyState)"
    by (rule rangeSync_rejects_invalid [where stores = "[demoStore]" and ident = "''S''"
          and env = demoEnv and st = emptyState and sd = "''2025-13-01''" and ed = "''2025-01-01''"
          and store = demoStore, THEN conjunct2, THEN conjunct1, rule_format])
       (intro conjI f disjI1 c)
  from f x y show ?thesis by (intro conjI)
qed

end
